theory Spec2Isabelle
  imports Complex_Main
begin

section \<open>Python values, exceptions and outcomes\<close>

text \<open>
  The example scripts under \<open>examples/\<close> pass command-line values through to the client
  library. The values that occur are \<open>None\<close>, strings, integers, floats and booleans. A float
  is only stored and handed on (no arithmetic is done on it), so it is carried as a real.
\<close>

datatype pyval = PNone | PStr string | PInt int | PFloat real | PBool bool

text \<open>Python truthiness, as used by \<open>if not args.api_key\<close> and \<open>if args.poll\<close>.\<close>

fun truthy :: "pyval \<Rightarrow> bool" where
  "truthy PNone = False"
| "truthy (PStr s) = (s \<noteq> [])"
| "truthy (PInt i) = (i \<noteq> 0)"
| "truthy (PFloat x) = (x \<noteq> 0)"
| "truthy (PBool b) = b"

text \<open>
  Raised objects. \<open>Exception m\<close> is an instance of class \<open>Exception\<close> (or of a subclass, such
  as a request error of the library), \<open>BaseException m\<close> an instance of \<open>BaseException\<close> that
  is not an \<open>Exception\<close> (\<open>KeyboardInterrupt\<close>, \<open>CancelledError\<close>), and \<open>SystemExit c\<close> what
  \<open>sys.exit(c)\<close> raises. Only the first kind is caught by \<open>except Exception\<close>.
\<close>

datatype exn = Exception string | BaseException string | SystemExit int

fun is_Exception :: "exn \<Rightarrow> bool" where
  "is_Exception (Exception m) = True"
| "is_Exception (BaseException m) = False"
| "is_Exception (SystemExit c) = False"

text \<open>
  The outcome of a call: it returns a value, it raises, or it has not returned (a library
  call that never comes back, or a polling loop that was still running when the fuel of the
  model ran out). Nothing that follows a call without return is executed.
\<close>

datatype 'a outcome = Return 'a | Raise exn | NoReturn

section \<open>The objects of the client library that the scripts touch\<close>

text \<open>
  \<open>prediction.urls.get\<close>, \<open>prediction.id\<close>, \<open>prediction.status\<close>, \<open>prediction.outputs\<close> and
  \<open>prediction.error\<close> are the attributes the scripts read. The status is a Python string,
  compared with the literals \<open>'completed'\<close> and \<open>'error'\<close>.
\<close>

record urls_t =
  get :: string

record prediction =
  id' :: string
  status :: string
  outputs :: "string list"
  error :: "string option"
  urls :: urls_t

text \<open>
  The client object: the scripts read \<open>client.poll_interval\<close> and call \<open>client.close()\<close>.
  No script assigns to an attribute of the client, and \<open>poll_interval\<close> is a configuration
  value of it: the client is a value here, the same at every read.
\<close>

record client =
  api_key :: pyval
  poll_interval :: real

type_synonym input = "(string \<times> pyval) list"

text \<open>
  The package \<open>wavespeed.client\<close> is imported by the scripts but is not part of the sources
  at hand. Its entry points are taken as parameters: each acts on a world \<open>'w\<close> (the remote
  service, the connection, whatever the library keeps) and returns an outcome. The scripts
  are verified for every such library.
\<close>

record 'w wavespeed =
  Wavespeed :: "pyval \<Rightarrow> 'w \<Rightarrow> client outcome \<times> 'w"
  run :: "client \<Rightarrow> string \<Rightarrow> input \<Rightarrow> 'w \<Rightarrow> prediction outcome \<times> 'w"
  async_run :: "client \<Rightarrow> string \<Rightarrow> input \<Rightarrow> 'w \<Rightarrow> prediction outcome \<times> 'w"
  async_create :: "client \<Rightarrow> string \<Rightarrow> input \<Rightarrow> 'w \<Rightarrow> prediction outcome \<times> 'w"
  async_reload :: "prediction \<Rightarrow> 'w \<Rightarrow> prediction outcome \<times> 'w"
  close :: "client \<Rightarrow> 'w \<Rightarrow> unit outcome \<times> 'w"

section \<open>Observable events\<close>

text \<open>One constructor per \<open>print\<close> statement of the scripts.\<close>

datatype line =
    Creating_job pyval
  | Job_created string
  | Status_URL string
  | Initial_status string
  | Polling_for_status_updates
  | Current_status string real
  | Final_status string
  | Image_generation_successful
  | Generated_image_URLs
  | Image nat string
  | Error_line "string option"
  | Generating_image pyval
  | Response
  | Repr prediction
  | Error_generating_image exn
  | API_key_is_required

text \<open>
  What a run of a script does, in order: lines printed, the exception logged, the waits, and
  the calls into the library, each with its arguments.
\<close>

datatype event =
    Print line
  | Log_exception exn
  | Sleep real
  | Call_Wavespeed pyval
  | Call_run string input
  | Call_async_run string input
  | Call_async_create string input
  | Call_async_reload prediction
  | Call_close

fun is_library_call :: "event \<Rightarrow> bool" where
  "is_library_call (Print l) = False"
| "is_library_call (Log_exception e) = False"
| "is_library_call (Sleep d) = False"
| "is_library_call (Call_Wavespeed k) = True"
| "is_library_call (Call_run m i) = True"
| "is_library_call (Call_async_run m i) = True"
| "is_library_call (Call_async_create m i) = True"
| "is_library_call (Call_async_reload p) = True"
| "is_library_call Call_close = True"

fun is_reload :: "event \<Rightarrow> bool" where
  "is_reload (Call_async_reload p) = True"
| "is_reload e = False"

fun is_sleep :: "event \<Rightarrow> bool" where
  "is_sleep (Sleep d) = True"
| "is_sleep e = False"

section \<open>The polling loop of \<open>create_and_poll_image\<close>\<close>

text \<open>
  \<^verbatim>\<open>
  while prediction.status not in ['completed', 'error']:
      await asyncio.sleep(client.poll_interval)
      print(f"Current status: {prediction.status}, polling again in ...")
      await prediction.async_reload()
  \<close>
  The loop has no bound of its own, so the model takes fuel: one unit per iteration. The
  guard is tested before the fuel, so a loop that is over needs none. The result is the
  outcome, the world and the events of the loop.
\<close>

definition terminal :: "string \<Rightarrow> bool" where
  "terminal s = (s \<in> set [''completed'', ''error''])"

fun polling_loop ::
  "nat \<Rightarrow> 'w wavespeed \<Rightarrow> client \<Rightarrow> prediction \<Rightarrow> 'w \<Rightarrow> prediction outcome \<times> 'w \<times> event list"
where
  "polling_loop 0 lib c p w =
     (if terminal (status p) then (Return p, w, []) else (NoReturn, w, []))"
| "polling_loop (Suc k) lib c p w =
     (if terminal (status p) then (Return p, w, [])
      else
        (let evs = [Sleep (poll_interval c),
                    Print (Current_status (status p) (poll_interval c)),
                    Call_async_reload p]
         in case async_reload lib p w of
              (Return p', w') \<Rightarrow>
                (case polling_loop k lib c p' w' of
                   (r, w'', evs') \<Rightarrow> (r, w'', evs @ evs'))
            | (Raise e, w') \<Rightarrow> (Raise e, w', evs)
            | (NoReturn, w') \<Rightarrow> (NoReturn, w', evs)))"

section \<open>The entry functions of the three scripts\<close>

text \<open>
  \<open>args\<close> is the namespace that \<open>parse_args\<close> returns: attribute names to values. Reading
  an attribute the namespace does not have raises \<open>AttributeError\<close>.
\<close>

type_synonym namespace = "string \<rightharpoonup> pyval"

definition getattr :: "namespace \<Rightarrow> string \<Rightarrow> exn + pyval" where
  "getattr ns a = (case ns a of None \<Rightarrow> Inl (Exception ''AttributeError'') | Some v \<Rightarrow> Inr v)"

text \<open>
  The dictionary literal passed as \<open>input=\<close>, the same in the three scripts. Its values are
  evaluated in the order written; the first missing attribute raises.
\<close>

fun getattrs :: "namespace \<Rightarrow> (string \<times> string) list \<Rightarrow> exn + input" where
  "getattrs ns [] = Inr []"
| "getattrs ns ((k, a) # kas) =
     (case getattr ns a of
        Inl e \<Rightarrow> Inl e
      | Inr v \<Rightarrow> (case getattrs ns kas of Inl e \<Rightarrow> Inl e | Inr kvs \<Rightarrow> Inr ((k, v) # kvs)))"

definition input_dict :: "namespace \<Rightarrow> exn + input" where
  "input_dict args = getattrs args
     [(''prompt'', ''prompt''),
      (''strength'', ''strength''),
      (''size'', ''size''),
      (''num_inference_steps'', ''steps''),
      (''guidance_scale'', ''guidance''),
      (''num_images'', ''num_images''),
      (''seed'', ''seed''),
      (''enable_safety_checker'', ''safety'')]"

text \<open>
  The handler and the cleanup are the same in the three entry functions:
  \<^verbatim>\<open>
  except Exception as e:
      logging.exception(e)
      print(f"Error generating image: {e}")
      sys.exit(1)
  finally:
      await client.close()
  \<close>
  \<open>except_Exception\<close> takes the outcome and the events of the \<open>try\<close> body; the handler runs
  for an \<open>Exception\<close> only and ends by raising \<open>SystemExit(1)\<close>. \<open>finally_close\<close> then runs
  for every outcome that leaves the \<open>try\<close> statement; what \<open>close\<close> raises replaces the
  pending outcome.
\<close>

definition except_Exception :: "unit outcome \<times> 'w \<times> event list \<Rightarrow> unit outcome \<times> 'w \<times> event list" where
  "except_Exception x =
     (case x of
        (Raise e, w, evs) \<Rightarrow>
          (if is_Exception e
           then (Raise (SystemExit 1), w, evs @ [Log_exception e, Print (Error_generating_image e)])
           else (Raise e, w, evs))
      | (r, w, evs) \<Rightarrow> (r, w, evs))"

definition finally_close ::
  "'w wavespeed \<Rightarrow> client \<Rightarrow> unit outcome \<times> 'w \<times> event list \<Rightarrow> unit outcome \<times> 'w \<times> event list"
where
  "finally_close lib c x =
     (case x of
        (NoReturn, w, evs) \<Rightarrow> (NoReturn, w, evs)
      | (r, w, evs) \<Rightarrow>
          (case close lib c w of
             (Return u, w') \<Rightarrow> (r, w', evs @ [Call_close])
           | (Raise e, w') \<Rightarrow> (Raise e, w', evs @ [Call_close])
           | (NoReturn, w') \<Rightarrow> (NoReturn, w', evs @ [Call_close])))"

text \<open>
  \<^verbatim>\<open>
  if prediction.outputs:
      print("\nGenerated image URLs:")
      for i, img_url in enumerate(prediction.outputs):
          print(f"Image {i+1}: {img_url}")
  \<close>
\<close>

definition print_outputs :: "prediction \<Rightarrow> event list" where
  "print_outputs p =
     (if outputs p \<noteq> []
      then Print Generated_image_URLs # map (\<lambda>(i, u). Print (Image (i + 1) u)) (enumerate 0 (outputs p))
      else [])"

subsection \<open>\<open>async_create_generate_image.py\<close>\<close>

text \<open>The \<open>try\<close> body of \<open>create_and_poll_image\<close>, up to the handler.\<close>

definition create_and_poll_image_body ::
  "nat \<Rightarrow> 'w wavespeed \<Rightarrow> client \<Rightarrow> namespace \<Rightarrow> 'w \<Rightarrow> unit outcome \<times> 'w \<times> event list"
where
  "create_and_poll_image_body n lib c args w =
     (case getattr args ''prompt'' of
        Inl e \<Rightarrow> (Raise e, w, [])
      | Inr prompt \<Rightarrow>
     (case input_dict args of
        Inl e \<Rightarrow> (Raise e, w, [Print (Creating_job prompt)])
      | Inr inp \<Rightarrow>
     (let evs0 = [Print (Creating_job prompt), Call_async_create ''wavespeed-ai/flux-dev'' inp]
      in case async_create lib c ''wavespeed-ai/flux-dev'' inp w of
        (Raise e, w1) \<Rightarrow> (Raise e, w1, evs0)
      | (NoReturn, w1) \<Rightarrow> (NoReturn, w1, evs0)
      | (Return p, w1) \<Rightarrow>
     (let evs1 = evs0 @ [Print (Job_created (id' p)),
                         Print (Status_URL (get (urls p))),
                         Print (Initial_status (status p))]
      in case getattr args ''poll'' of
        Inl e \<Rightarrow> (Raise e, w1, evs1)
      | Inr poll \<Rightarrow>
          if truthy poll then
            (case polling_loop n lib c p w1 of
               (Raise e, w2, evs2) \<Rightarrow> (Raise e, w2, evs1 @ Print Polling_for_status_updates # evs2)
             | (NoReturn, w2, evs2) \<Rightarrow> (NoReturn, w2, evs1 @ Print Polling_for_status_updates # evs2)
             | (Return p', w2, evs2) \<Rightarrow>
                 (Return (), w2,
                  evs1 @ Print Polling_for_status_updates # evs2 @ Print (Final_status (status p')) #
                  (if status p' = ''completed''
                   then Print Image_generation_successful # print_outputs p'
                   else [Print (Error_line (error p'))])))
          else (Return (), w1, evs1)))))"

definition create_and_poll_image ::
  "nat \<Rightarrow> 'w wavespeed \<Rightarrow> client \<Rightarrow> namespace \<Rightarrow> 'w \<Rightarrow> unit outcome \<times> 'w \<times> event list"
where
  "create_and_poll_image n lib c args w =
     finally_close lib c (except_Exception (create_and_poll_image_body n lib c args w))"

subsection \<open>\<open>generate_image.py\<close> and \<open>async_generate_image.py\<close>\<close>

text \<open>
  The two \<open>generate_image\<close> functions differ in the call only: \<open>client.run(...)\<close> in
  \<open>generate_image.py\<close>, \<open>await client.async_run(...)\<close> in \<open>async_generate_image.py\<close>.
\<close>

definition generate_image_body ::
  "'w wavespeed \<Rightarrow> client \<Rightarrow> namespace \<Rightarrow> 'w \<Rightarrow> unit outcome \<times> 'w \<times> event list"
where
  "generate_image_body lib c args w =
     (case getattr args ''prompt'' of
        Inl e \<Rightarrow> (Raise e, w, [])
      | Inr prompt \<Rightarrow>
     (case input_dict args of
        Inl e \<Rightarrow> (Raise e, w, [Print (Generating_image prompt)])
      | Inr inp \<Rightarrow>
     (let evs0 = [Print (Generating_image prompt), Call_run ''wavespeed-ai/flux-dev'' inp]
      in case run lib c ''wavespeed-ai/flux-dev'' inp w of
        (Raise e, w1) \<Rightarrow> (Raise e, w1, evs0)
      | (NoReturn, w1) \<Rightarrow> (NoReturn, w1, evs0)
      | (Return p, w1) \<Rightarrow>
          (Return (), w1,
           evs0 @ [Print Image_generation_successful, Print Response, Print (Repr p)]
                @ print_outputs p))))"

definition generate_image ::
  "'w wavespeed \<Rightarrow> client \<Rightarrow> namespace \<Rightarrow> 'w \<Rightarrow> unit outcome \<times> 'w \<times> event list"
where
  "generate_image lib c args w =
     finally_close lib c (except_Exception (generate_image_body lib c args w))"

definition generate_image_async_body ::
  "'w wavespeed \<Rightarrow> client \<Rightarrow> namespace \<Rightarrow> 'w \<Rightarrow> unit outcome \<times> 'w \<times> event list"
where
  "generate_image_async_body lib c args w =
     (case getattr args ''prompt'' of
        Inl e \<Rightarrow> (Raise e, w, [])
      | Inr prompt \<Rightarrow>
     (case input_dict args of
        Inl e \<Rightarrow> (Raise e, w, [Print (Generating_image prompt)])
      | Inr inp \<Rightarrow>
     (let evs0 = [Print (Generating_image prompt), Call_async_run ''wavespeed-ai/flux-dev'' inp]
      in case async_run lib c ''wavespeed-ai/flux-dev'' inp w of
        (Raise e, w1) \<Rightarrow> (Raise e, w1, evs0)
      | (NoReturn, w1) \<Rightarrow> (NoReturn, w1, evs0)
      | (Return p, w1) \<Rightarrow>
          (Return (), w1,
           evs0 @ [Print Image_generation_successful, Print Response, Print (Repr p)]
                @ print_outputs p))))"

definition generate_image_async ::
  "'w wavespeed \<Rightarrow> client \<Rightarrow> namespace \<Rightarrow> 'w \<Rightarrow> unit outcome \<times> 'w \<times> event list"
where
  "generate_image_async lib c args w =
     finally_close lib c (except_Exception (generate_image_async_body lib c args w))"

section \<open>Command lines\<close>

text \<open>
  The scripts declare their options with \<open>argparse\<close>. An argument is declared by its option
  strings, its destination, its action, its default and whether it is required. The
  destination of \<open>--num-images\<close> is \<open>num_images\<close>: the leading dashes go, inner dashes become
  underscores. A default of \<open>None\<close> here is \<open>argparse.SUPPRESS\<close> (no attribute is set), which
  only the help option has.
\<close>

datatype argtype = type_str | type_int | type_float

datatype action = Store argtype | Store_true | Help

record argument =
  option_strings :: "string list"
  dest :: string
  action :: action
  default :: "pyval option"
  required :: bool

definition dest_of :: "string \<Rightarrow> string" where
  "dest_of opt = map (\<lambda>c. if c = CHR ''-'' then CHR ''_'' else c) (drop 2 opt)"

definition add_argument :: "string \<Rightarrow> action \<Rightarrow> pyval \<Rightarrow> bool \<Rightarrow> argument" where
  "add_argument opt act dflt req =
     \<lparr>option_strings = [opt], dest = dest_of opt, action = act, default = Some dflt, required = req\<rparr>"

text \<open>\<open>ArgumentParser(...)\<close> starts with the help option \<open>-h\<close>, \<open>--help\<close>.\<close>

definition ArgumentParser :: "argument list" where
  "ArgumentParser =
     [\<lparr>option_strings = [''-h'', ''--help''], dest = ''help'', action = Help, default = None,
       required = False\<rparr>]"

text \<open>\<open>os.environ.get("WAVESPEED_API_KEY")\<close>.\<close>

definition environ_get :: "(string \<rightharpoonup> string) \<Rightarrow> string \<Rightarrow> pyval" where
  "environ_get environ k = (case environ k of None \<Rightarrow> PNone | Some v \<Rightarrow> PStr v)"

text \<open>The options common to the three scripts, from \<open>--strength\<close> to \<open>--safety\<close>.\<close>

definition generation_arguments :: "argument list" where
  "generation_arguments =
     [add_argument ''--strength'' (Store type_float) (PFloat 0.6) False,
      add_argument ''--size'' (Store type_str) (PStr ''1024*1024'') False,
      add_argument ''--steps'' (Store type_int) (PInt 28) False,
      add_argument ''--guidance'' (Store type_float) (PFloat 5.0) False,
      add_argument ''--num-images'' (Store type_int) (PInt 1) False,
      add_argument ''--seed'' (Store type_int) (PInt (- 1)) False,
      add_argument ''--safety'' Store_true (PBool True) False]"

definition parser_generate_image :: "(string \<rightharpoonup> string) \<Rightarrow> argument list" where
  "parser_generate_image environ =
     ArgumentParser @
     [add_argument ''--api-key'' (Store type_str) (environ_get environ ''WAVESPEED_API_KEY'') False,
      add_argument ''--prompt'' (Store type_str) PNone True,
      add_argument ''--image'' (Store type_str) PNone False] @
     generation_arguments"

definition parser_async_generate_image :: "(string \<rightharpoonup> string) \<Rightarrow> argument list" where
  "parser_async_generate_image environ =
     ArgumentParser @
     [add_argument ''--api-key'' (Store type_str) (environ_get environ ''WAVESPEED_API_KEY'') False,
      add_argument ''--prompt'' (Store type_str) PNone True] @
     generation_arguments"

definition parser_async_create_generate_image :: "(string \<rightharpoonup> string) \<Rightarrow> argument list" where
  "parser_async_create_generate_image environ =
     ArgumentParser @
     [add_argument ''--api-key'' (Store type_str) (environ_get environ ''WAVESPEED_API_KEY'') False,
      add_argument ''--prompt'' (Store type_str) PNone True] @
     generation_arguments @
     [add_argument ''--poll'' Store_true (PBool True) False]"

text \<open>
  \<open>parse_args\<close> starts from the defaults (a string default of an option of type \<open>str\<close> is
  converted by \<open>str\<close>, which leaves it as it is), matches the strings of the command line
  against the declared options
  (exact option strings, unambiguous abbreviations, \<open>--opt=value\<close>), and runs the action of
  each option found, in order. The matching and the conversions \<open>int(...)\<close> and \<open>float(...)\<close>
  belong to Python, not to the scripts: they are parameters here. The matching yields, for
  each occurrence of an option, its option string and the argument string it received (if
  any), and marks the strings it could not place; it yields nothing when it fails at once
  (an ambiguous abbreviation).
\<close>

datatype token = Optional string "string option" | Extra string

record python =
  match_args :: "argument list \<Rightarrow> string list \<Rightarrow> token list option"
  int_of :: "string \<Rightarrow> int option"
  float_of :: "string \<Rightarrow> real option"

fun get_value :: "python \<Rightarrow> argtype \<Rightarrow> string \<Rightarrow> pyval option" where
  "get_value py type_str s = Some (PStr s)"
| "get_value py type_int s = map_option PInt (int_of py s)"
| "get_value py type_float s = map_option PFloat (float_of py s)"

fun set_defaults :: "argument list \<Rightarrow> namespace \<Rightarrow> namespace" where
  "set_defaults [] ns = ns"
| "set_defaults (a # as) ns =
     set_defaults as
       (case default a of
          None \<Rightarrow> ns
        | Some v \<Rightarrow> (case ns (dest a) of None \<Rightarrow> ns(dest a \<mapsto> v) | Some v' \<Rightarrow> ns))"

definition find_argument :: "argument list \<Rightarrow> string \<Rightarrow> argument option" where
  "find_argument parser opt = find (\<lambda>a. opt \<in> set (option_strings a)) parser"

text \<open>
  One action. \<open>store\<close> needs exactly one argument string and converts it; \<open>store_true\<close> takes
  none and stores the constant \<open>True\<close>; \<open>help\<close> prints the help and exits with status 0.
  Every error of \<open>argparse\<close> exits with status 2.
\<close>

fun take_action :: "python \<Rightarrow> argument \<Rightarrow> string option \<Rightarrow> namespace \<Rightarrow> int + namespace" where
  "take_action py a arg ns =
     (case (action a, arg) of
        (Store ty, Some s) \<Rightarrow>
          (case get_value py ty s of None \<Rightarrow> Inl 2 | Some v \<Rightarrow> Inr (ns(dest a \<mapsto> v)))
      | (Store ty, None) \<Rightarrow> Inl 2
      | (Store_true, None) \<Rightarrow> Inr (ns(dest a \<mapsto> PBool True))
      | (Store_true, Some s) \<Rightarrow> Inl 2
      | (Help, None) \<Rightarrow> Inl 0
      | (Help, Some s) \<Rightarrow> Inl 2)"

text \<open>
  The tokens in order. The state is the namespace, the destinations seen so far and whether
  a string was left over.
\<close>

fun consume_tokens ::
  "python \<Rightarrow> argument list \<Rightarrow> token list \<Rightarrow> namespace \<times> string list \<times> bool \<Rightarrow>
   int + namespace \<times> string list \<times> bool"
where
  "consume_tokens py parser [] st = Inr st"
| "consume_tokens py parser (Extra s # ts) (ns, seen, extras) =
     consume_tokens py parser ts (ns, seen, True)"
| "consume_tokens py parser (Optional opt arg # ts) (ns, seen, extras) =
     (case find_argument parser opt of
        None \<Rightarrow> consume_tokens py parser ts (ns, seen, True)
      | Some a \<Rightarrow>
          (case take_action py a arg ns of
             Inl code \<Rightarrow> Inl code
           | Inr ns' \<Rightarrow> consume_tokens py parser ts (ns', dest a # seen, extras)))"

text \<open>
  \<open>parser.parse_args()\<close>: the exit status when \<open>argparse\<close> ends the process, the namespace
  otherwise. A required option that was not seen and a string left over are errors, found
  after all actions have run.
\<close>

definition parse_args :: "python \<Rightarrow> argument list \<Rightarrow> string list \<Rightarrow> int + namespace" where
  "parse_args py parser argv =
     (case match_args py parser argv of
        None \<Rightarrow> Inl 2
      | Some ts \<Rightarrow>
          (case consume_tokens py parser ts (set_defaults parser Map.empty, [], False) of
             Inl code \<Rightarrow> Inl code
           | Inr (ns, seen, extras) \<Rightarrow>
               if list_ex (\<lambda>a. required a \<and> dest a \<notin> set seen) parser then Inl 2
               else if extras then Inl 2
               else Inr ns))"

section \<open>The three \<open>main\<close> functions\<close>

text \<open>
  Each script parses its command line, stops with status 1 when no API key came from
  \<open>--api-key\<close> or from the environment, builds the client and runs its entry function:
  \<^verbatim>\<open>
  args = parser.parse_args()
  if not args.api_key:
      print("Error: API key is required. ...")
      sys.exit(1)
  client = Wavespeed(api_key=args.api_key)
  \<close>
\<close>

definition main_generate_image ::
  "python \<Rightarrow> 'w wavespeed \<Rightarrow> string list \<Rightarrow> (string \<rightharpoonup> string) \<Rightarrow> 'w \<Rightarrow>
   unit outcome \<times> 'w \<times> event list"
where
  "main_generate_image py lib argv environ w =
     (case parse_args py (parser_generate_image environ) argv of
        Inl code \<Rightarrow> (Raise (SystemExit code), w, [])
      | Inr args \<Rightarrow>
     (case getattr args ''api_key'' of
        Inl e \<Rightarrow> (Raise e, w, [])
      | Inr k \<Rightarrow>
          if \<not> truthy k then (Raise (SystemExit 1), w, [Print API_key_is_required])
          else
            (case Wavespeed lib k w of
               (Raise e, w1) \<Rightarrow> (Raise e, w1, [Call_Wavespeed k])
             | (NoReturn, w1) \<Rightarrow> (NoReturn, w1, [Call_Wavespeed k])
             | (Return c, w1) \<Rightarrow>
                 (case generate_image lib c args w1 of
                    (r, w2, evs) \<Rightarrow> (r, w2, Call_Wavespeed k # evs)))))"

definition main_async_generate_image ::
  "python \<Rightarrow> 'w wavespeed \<Rightarrow> string list \<Rightarrow> (string \<rightharpoonup> string) \<Rightarrow> 'w \<Rightarrow>
   unit outcome \<times> 'w \<times> event list"
where
  "main_async_generate_image py lib argv environ w =
     (case parse_args py (parser_async_generate_image environ) argv of
        Inl code \<Rightarrow> (Raise (SystemExit code), w, [])
      | Inr args \<Rightarrow>
     (case getattr args ''api_key'' of
        Inl e \<Rightarrow> (Raise e, w, [])
      | Inr k \<Rightarrow>
          if \<not> truthy k then (Raise (SystemExit 1), w, [Print API_key_is_required])
          else
            (case Wavespeed lib k w of
               (Raise e, w1) \<Rightarrow> (Raise e, w1, [Call_Wavespeed k])
             | (NoReturn, w1) \<Rightarrow> (NoReturn, w1, [Call_Wavespeed k])
             | (Return c, w1) \<Rightarrow>
                 (case generate_image_async lib c args w1 of
                    (r, w2, evs) \<Rightarrow> (r, w2, Call_Wavespeed k # evs)))))"

definition main_async_create_generate_image ::
  "nat \<Rightarrow> python \<Rightarrow> 'w wavespeed \<Rightarrow> string list \<Rightarrow> (string \<rightharpoonup> string) \<Rightarrow> 'w \<Rightarrow>
   unit outcome \<times> 'w \<times> event list"
where
  "main_async_create_generate_image n py lib argv environ w =
     (case parse_args py (parser_async_create_generate_image environ) argv of
        Inl code \<Rightarrow> (Raise (SystemExit code), w, [])
      | Inr args \<Rightarrow>
     (case getattr args ''api_key'' of
        Inl e \<Rightarrow> (Raise e, w, [])
      | Inr k \<Rightarrow>
          if \<not> truthy k then (Raise (SystemExit 1), w, [Print API_key_is_required])
          else
            (case Wavespeed lib k w of
               (Raise e, w1) \<Rightarrow> (Raise e, w1, [Call_Wavespeed k])
             | (NoReturn, w1) \<Rightarrow> (NoReturn, w1, [Call_Wavespeed k])
             | (Return c, w1) \<Rightarrow>
                 (case create_and_poll_image n lib c args w1 of
                    (r, w2, evs) \<Rightarrow> (r, w2, Call_Wavespeed k # evs)))))"

section \<open>A scripted library and a small command-line matcher\<close>

text \<open>
  Concrete instances of the two parameters, for running the scripts on examples. The world
  of the scripted library is the list of statuses the service will report, one per request;
  a request beyond the script fails. A completed job carries one image URL, a failed one a
  message.
\<close>

definition scripted_prediction :: "string \<Rightarrow> prediction" where
  "scripted_prediction s =
     \<lparr>id' = ''job-1'', status = s,
      outputs = (if s = ''completed'' then [''https://img/1.png''] else []),
      error = (if s = ''error'' then Some ''model failure'' else None),
      urls = \<lparr>get = ''https://api/predictions/job-1''\<rparr>\<rparr>"

definition scripted_request :: "string list \<Rightarrow> prediction outcome \<times> string list" where
  "scripted_request w =
     (case w of
        [] \<Rightarrow> (Raise (Exception ''RequestError''), [])
      | s # w' \<Rightarrow> (Return (scripted_prediction s), w'))"

definition scripted :: "string list wavespeed" where
  "scripted =
     \<lparr>Wavespeed = (\<lambda>k w. (Return \<lparr>api_key = k, poll_interval = 2\<rparr>, w)),
      run = (\<lambda>c m i w. scripted_request w),
      async_run = (\<lambda>c m i w. scripted_request w),
      async_create = (\<lambda>c m i w. scripted_request w),
      async_reload = (\<lambda>p w. scripted_request w),
      close = (\<lambda>c w. (Return (), w))\<rparr>"

text \<open>
  The matcher knows exact option strings only: an option whose action is \<open>store\<close> takes the
  next string as its argument, any other string is left over.
\<close>

fun exact_match :: "argument list \<Rightarrow> string list \<Rightarrow> token list" where
  "exact_match parser [] = []"
| "exact_match parser [s] =
     (case find_argument parser s of None \<Rightarrow> [Extra s] | Some a \<Rightarrow> [Optional s None])"
| "exact_match parser (s # v # rest) =
     (case find_argument parser s of
        None \<Rightarrow> Extra s # exact_match parser (v # rest)
      | Some a \<Rightarrow>
          (case action a of
             Store ty \<Rightarrow> Optional s (Some v) # exact_match parser rest
           | Store_true \<Rightarrow> Optional s None # exact_match parser (v # rest)
           | Help \<Rightarrow> Optional s None # exact_match parser (v # rest)))"

definition small_python :: python where
  "small_python =
     \<lparr>match_args = (\<lambda>parser argv. Some (exact_match parser argv)),
      int_of = (\<lambda>s. if s = ''4'' then Some 4 else if s = ''28'' then Some 28 else None),
      float_of = (\<lambda>s. if s = ''1'' then Some 1 else None)\<rparr>"

section \<open>The client library, from its specification\<close>

text \<open>
  Modelled from the spec: the state of a job as the remote service reports it, for the Job
  class of \<open>wavespeed.client\<close>, which is not among the sources. The specification describes
  a Job with a status among queued, processing, completed and error, with output URLs on
  completion and a message on failure, refreshed from the responses of the service; the
  remote state is the tagged variant of its design notes, and the job mirrors it in the
  fields the scripts read.
\<close>

datatype job_state = Queued | Processing | Completed "string list" | Failed string

fun status_of :: "job_state \<Rightarrow> string" where
  "status_of Queued = ''queued''"
| "status_of Processing = ''processing''"
| "status_of (Completed os) = ''completed''"
| "status_of (Failed m) = ''error''"

fun outputs_of :: "job_state \<Rightarrow> string list" where
  "outputs_of (Completed os) = os"
| "outputs_of st = []"

fun error_of :: "job_state \<Rightarrow> string option" where
  "error_of (Failed m) = Some m"
| "error_of st = None"

text \<open>
  Modelled from the spec: the responses of the service that \<open>wavespeed.client\<close> (not among
  the sources) parses: to a create request the job id, the initial state and the link map;
  to a status check the state (with the output URLs on completion, the message on failure)
  and the link map.
\<close>

record create_response =
  job_id :: string
  initial :: job_state
  links :: urls_t

record status_response =
  state :: job_state
  status_links :: urls_t

text \<open>
  Modelled from the spec: the transport under the client of \<open>wavespeed.client\<close> (not among
  the sources): each request either fails (\<open>None\<close>) or brings a response, and moves the
  remote side \<open>'r\<close> on.
\<close>

record 'r transport =
  create_job :: "string \<Rightarrow> input \<Rightarrow> 'r \<Rightarrow> create_response option \<times> 'r"
  status_check :: "string \<Rightarrow> 'r \<Rightarrow> status_response option \<times> 'r"

text \<open>
  Modelled from the spec: what the client of \<open>wavespeed.client\<close> (not among the sources) has
  done on the wire, in order, with the waits between its requests, and the session it
  keeps: the remote side, whether the transport resource is still held, and that log.
\<close>

datatype wire = Create_request string input | Status_request string | Wait real

fun is_request :: "wire \<Rightarrow> bool" where
  "is_request (Create_request m i) = True"
| "is_request (Status_request j) = True"
| "is_request (Wait d) = False"

record 'r session =
  remote :: 'r
  transport_open :: bool
  wire_log :: "wire list"

text \<open>
  Modelled from the spec: \<open>Job Handle.reload()\<close> / \<open>async_reload()\<close> of \<open>wavespeed.client\<close>,
  which is not among the sources. It issues a status-check request with the job's id and
  overwrites status, outputs, error and urls from the response; a transport failure is a
  \<open>RequestError\<close> and leaves the handle as it was. The result is the outcome, the handle
  after the call and the session.
\<close>

definition spec_reload ::
  "'r transport \<Rightarrow> prediction \<Rightarrow> 'r session \<Rightarrow> unit outcome \<times> prediction \<times> 'r session"
where
  "spec_reload t p s =
     (case status_check t (id' p) (remote s) of
        (None, r') \<Rightarrow>
          (Raise (Exception ''RequestError''), p,
           s\<lparr>remote := r', wire_log := wire_log s @ [Status_request (id' p)]\<rparr>)
      | (Some resp, r') \<Rightarrow>
          (Return (),
           p\<lparr>status := status_of (state resp),
             outputs := outputs_of (state resp),
             error := error_of (state resp),
             urls := status_links resp\<rparr>,
           s\<lparr>remote := r', wire_log := wire_log s @ [Status_request (id' p)]\<rparr>))"

text \<open>
  Modelled from the spec: \<open>Client.create(modelId, input)\<close> of \<open>wavespeed.client\<close>, which is not
  among the sources. Without an API key it fails with \<open>AuthError\<close> before any request; a
  transport failure is a \<open>RequestError\<close>; otherwise the job mirrors the response. It does not
  wait.
\<close>

definition spec_create ::
  "'r transport \<Rightarrow> client \<Rightarrow> string \<Rightarrow> input \<Rightarrow> 'r session \<Rightarrow> prediction outcome \<times> 'r session"
where
  "spec_create t c modelId inp s =
     (if \<not> truthy (api_key c) then (Raise (Exception ''AuthError''), s)
      else case create_job t modelId inp (remote s) of
        (None, r') \<Rightarrow>
          (Raise (Exception ''RequestError''),
           s\<lparr>remote := r', wire_log := wire_log s @ [Create_request modelId inp]\<rparr>)
      | (Some resp, r') \<Rightarrow>
          (Return \<lparr>id' = job_id resp, status = status_of (initial resp),
                   outputs = outputs_of (initial resp), error = error_of (initial resp),
                   urls = links resp\<rparr>,
           s\<lparr>remote := r', wire_log := wire_log s @ [Create_request modelId inp]\<rparr>))"

text \<open>
  Modelled from the spec: the loop inside \<open>Client.run\<close> of \<open>wavespeed.client\<close>, which is not
  among the sources: until the status is completed or error, wait \<open>poll_interval\<close> and
  reload. The specification gives the loop no bound, so the model takes fuel, one unit per
  reload.
\<close>

fun spec_run_loop ::
  "nat \<Rightarrow> 'r transport \<Rightarrow> client \<Rightarrow> prediction \<Rightarrow> 'r session \<Rightarrow> prediction outcome \<times> 'r session"
where
  "spec_run_loop 0 t c p s = (if terminal (status p) then (Return p, s) else (NoReturn, s))"
| "spec_run_loop (Suc k) t c p s =
     (if terminal (status p) then (Return p, s)
      else case spec_reload t p (s\<lparr>wire_log := wire_log s @ [Wait (poll_interval c)]\<rparr>) of
        (Return u, p', s') \<Rightarrow> spec_run_loop k t c p' s'
      | (Raise e, p', s') \<Rightarrow> (Raise e, s')
      | (NoReturn, p', s') \<Rightarrow> (NoReturn, s'))"

text \<open>
  Modelled from the spec: \<open>Client.run(modelId, input)\<close> of \<open>wavespeed.client\<close>, which is not
  among the sources: create, then repeatedly wait \<open>poll_interval\<close> and reload, returning the
  final job. It fails as \<open>create\<close> and \<open>reload\<close> do; a job that ends in error is returned, not
  raised.
\<close>

definition spec_run ::
  "nat \<Rightarrow> 'r transport \<Rightarrow> client \<Rightarrow> string \<Rightarrow> input \<Rightarrow> 'r session \<Rightarrow> prediction outcome \<times> 'r session"
where
  "spec_run n t c modelId inp s =
     (case spec_create t c modelId inp s of
        (Return p, s') \<Rightarrow> spec_run_loop n t c p s'
      | (Raise e, s') \<Rightarrow> (Raise e, s')
      | (NoReturn, s') \<Rightarrow> (NoReturn, s'))"

text \<open>
  Modelled from the spec: \<open>Client.close()\<close> of \<open>wavespeed.client\<close>, which is not among the
  sources: it releases the transport resource, sends nothing, and may be called again.
\<close>

definition spec_close :: "client \<Rightarrow> 'r session \<Rightarrow> unit outcome \<times> 'r session" where
  "spec_close c s = (Return (), s\<lparr>transport_open := False\<rparr>)"

text \<open>
  Modelled from the spec: the entry points of \<open>wavespeed.client\<close> (not among the sources)
  that the scripts call, put together from the operations above. The asynchronous entry
  points differ from the blocking ones in how the wait is expressed only.
\<close>

definition spec_async_reload ::
  "'r transport \<Rightarrow> prediction \<Rightarrow> 'r session \<Rightarrow> prediction outcome \<times> 'r session"
where
  "spec_async_reload t p s =
     (case spec_reload t p s of
        (Return u, p', s') \<Rightarrow> (Return p', s')
      | (Raise e, p', s') \<Rightarrow> (Raise e, s')
      | (NoReturn, p', s') \<Rightarrow> (NoReturn, s'))"

definition spec_library :: "nat \<Rightarrow> real \<Rightarrow> 'r transport \<Rightarrow> 'r session wavespeed" where
  "spec_library n interval t =
     \<lparr>Wavespeed = (\<lambda>k s. (Return \<lparr>api_key = k, poll_interval = interval\<rparr>, s)),
      run = spec_run n t,
      async_run = spec_run n t,
      async_create = spec_create t,
      async_reload = spec_async_reload t,
      close = spec_close\<rparr>"

text \<open>
  The invariant of a job: outputs only when completed, an error only when the status is
  error, never both, and neither while the status is not terminal.
\<close>

definition job_invariant :: "prediction \<Rightarrow> bool" where
  "job_invariant p =
     ((outputs p \<noteq> [] \<longrightarrow> status p = ''completed'') \<and>
      (error p \<noteq> None \<longrightarrow> status p = ''error'') \<and>
      \<not> (outputs p \<noteq> [] \<and> error p \<noteq> None) \<and>
      (\<not> terminal (status p) \<longrightarrow> outputs p = [] \<and> error p = None))"

text \<open>A scripted transport: the remote side is the list of states still to be reported.\<close>

definition scripted_transport :: "job_state list transport" where
  "scripted_transport =
     \<lparr>create_job = (\<lambda>m i r.
        case r of [] \<Rightarrow> (None, [])
        | st # r' \<Rightarrow> (Some \<lparr>job_id = ''job-1'', initial = st, links = \<lparr>get = ''https://api/job-1''\<rparr>\<rparr>, r')),
      status_check = (\<lambda>j r.
        case r of [] \<Rightarrow> (None, [])
        | st # r' \<Rightarrow> (Some \<lparr>state = st, status_links = \<lparr>get = ''https://api/job-1''\<rparr>\<rparr>, r'))\<rparr>"

text \<open>A library whose service never gets past a status the scripts do not know.\<close>

definition stalled :: "unit wavespeed" where
  "stalled =
     \<lparr>Wavespeed = (\<lambda>k w. (Return \<lparr>api_key = k, poll_interval = 2\<rparr>, w)),
      run = (\<lambda>c m i w. (Return (scripted_prediction ''failed''), w)),
      async_run = (\<lambda>c m i w. (Return (scripted_prediction ''failed''), w)),
      async_create = (\<lambda>c m i w. (Return (scripted_prediction ''failed''), w)),
      async_reload = (\<lambda>p w. (Return (scripted_prediction ''failed''), w)),
      close = (\<lambda>c w. (Return (), w))\<rparr>"

definition example_client :: client where
  "example_client = \<lparr>api_key = PStr ''key'', poll_interval = 2\<rparr>"

definition example_args :: namespace where
  "example_args =
     [''api_key'' \<mapsto> PStr ''key'', ''prompt'' \<mapsto> PStr ''a cat'', ''strength'' \<mapsto> PFloat 0.6,
      ''size'' \<mapsto> PStr ''1024*1024'', ''steps'' \<mapsto> PInt 28, ''guidance'' \<mapsto> PFloat 5.0,
      ''num_images'' \<mapsto> PInt 1, ''seed'' \<mapsto> PInt (- 1), ''safety'' \<mapsto> PBool True,
      ''poll'' \<mapsto> PBool True]"

text \<open>
  Two variants of the scripted library whose \<open>close\<close> leaves a mark on the world: one that
  returns, one that raises.
\<close>

definition scripted_closing :: "string list wavespeed" where
  "scripted_closing = scripted\<lparr>close := (\<lambda>c w. (Return (), ''closed'' # w))\<rparr>"

definition scripted_close_fails :: "string list wavespeed" where
  "scripted_close_fails =
     scripted\<lparr>close := (\<lambda>c w. (Raise (Exception ''CloseError''), ''closed'' # w))\<rparr>"

text \<open>Further example data: a session of the specified client, the input dictionary of a
  default command line, two command lines, and three jobs as the service may report them.\<close>

definition example_session :: "job_state list \<Rightarrow> job_state list session" where
  "example_session r = \<lparr>remote = r, transport_open = True, wire_log = []\<rparr>"

definition example_input :: input where
  "example_input =
     [(''prompt'', PStr ''a cat''), (''strength'', PFloat 0.6), (''size'', PStr ''1024*1024''),
      (''num_inference_steps'', PInt 28), (''guidance_scale'', PFloat 5.0),
      (''num_images'', PInt 1), (''seed'', PInt (- 1)), (''enable_safety_checker'', PBool True)]"

definition example_argv :: "string list" where
  "example_argv = [''--api-key'', ''key'', ''--prompt'', ''a cat'', ''--safety'']"

definition keyless_argv :: "string list" where
  "keyless_argv = [''--prompt'', ''a cat'', ''--steps'', ''4'']"

definition completed_job :: prediction where
  "completed_job =
     \<lparr>id' = ''job-1'', status = ''completed'', outputs = [''https://img/1.png''], error = None,
      urls = \<lparr>get = ''https://api/job-1''\<rparr>\<rparr>"

definition processing_job :: prediction where
  "processing_job =
     \<lparr>id' = ''job-1'', status = ''processing'', outputs = [], error = None,
      urls = \<lparr>get = ''https://api/job-1''\<rparr>\<rparr>"

definition failed_job :: prediction where
  "failed_job =
     \<lparr>id' = ''job-1'', status = ''error'', outputs = [], error = Some ''out of memory'',
      urls = \<lparr>get = ''https://api/job-1''\<rparr>\<rparr>"

section \<open>Vocabulary of the properties\<close>

abbreviation events :: "'a \<times> 'b \<times> 'c \<Rightarrow> 'c" where
  "events x \<equiv> snd (snd x)"

text \<open>The waits and reloads of a run, in order, everything else left out.\<close>

definition timing :: "event list \<Rightarrow> event list" where
  "timing evs = filter (\<lambda>e. is_sleep e \<or> is_reload e) evs"

text \<open>
  A sequence of waits and reloads in which every reload comes right after one wait of
  length \<open>d\<close>, and every wait is followed by a reload.
\<close>

fun waits_then_reloads :: "real \<Rightarrow> event list \<Rightarrow> bool" where
  "waits_then_reloads d [] = True"
| "waits_then_reloads d (Sleep d' # Call_async_reload q # evs) = (d' = d \<and> waits_then_reloads d evs)"
| "waits_then_reloads d evs = False"

text \<open>The same on the wire of the specified client.\<close>

fun waits_then_requests :: "real \<Rightarrow> wire list \<Rightarrow> bool" where
  "waits_then_requests d [] = True"
| "waits_then_requests d (Wait d' # Status_request j # ws) = (d' = d \<and> waits_then_requests d ws)"
| "waits_then_requests d ws = False"

text \<open>\<open>client.close()\<close> is called once, and it is the last thing that happens.\<close>

definition closes_at_the_end :: "event list \<Rightarrow> bool" where
  "closes_at_the_end evs = (evs \<noteq> [] \<and> last evs = Call_close \<and> count_list evs Call_close = 1)"

section \<open>The polling loop\<close>

lemma polling_loop_terminal:
  "terminal (status p) \<Longrightarrow> polling_loop n lib c p w = (Return p, w, [])"
  by (cases n) simp_all

lemma polling_loop_reload_nonterminal:
  "Call_async_reload q \<in> set (snd (snd (polling_loop n lib c p w))) \<Longrightarrow> \<not> terminal (status q)"
proof (induction n arbitrary: p w)
  case 0
  then show ?case by (simp split: if_splits)
next
  case (Suc k)
  show ?case
  proof (cases "terminal (status p)")
    case True
    with Suc.prems show ?thesis by simp
  next
    case False
    obtain r w1 where rl: "async_reload lib p w = (r, w1)" by (cases "async_reload lib p w")
    show ?thesis
    proof (cases r)
      case (Return p1)
      obtain r2 w2 evs2 where pl: "polling_loop k lib c p1 w1 = (r2, w2, evs2)"
        by (cases "polling_loop k lib c p1 w1")
      from Suc.prems False rl Return pl
      have "q = p \<or> Call_async_reload q \<in> set evs2" by auto
      then show ?thesis
      proof
        assume "q = p" with False show ?thesis by simp
      next
        assume "Call_async_reload q \<in> set evs2"
        with pl Suc.IH [of p1 w1] show ?thesis by simp
      qed
    next
      case (Raise e)
      with Suc.prems False rl show ?thesis by auto
    next
      case NoReturn
      with Suc.prems False rl show ?thesis by auto
    qed
  qed
qed

lemma polling_loop_Return_terminal:
  "fst (polling_loop n lib c p w) = Return p' \<Longrightarrow> terminal (status p')"
proof (induction n arbitrary: p w)
  case 0
  then show ?case by (simp split: if_splits)
next
  case (Suc k)
  show ?case
  proof (cases "terminal (status p)")
    case True
    with Suc.prems show ?thesis by simp
  next
    case False
    obtain r w1 where rl: "async_reload lib p w = (r, w1)" by (cases "async_reload lib p w")
    show ?thesis
    proof (cases r)
      case (Return p1)
      obtain r2 w2 evs2 where pl: "polling_loop k lib c p1 w1 = (r2, w2, evs2)"
        by (cases "polling_loop k lib c p1 w1")
      from Suc.prems False rl Return pl have "r2 = Return p'" by simp
      with pl Suc.IH [of p1 w1] show ?thesis by simp
    next
      case (Raise e)
      with Suc.prems False rl show ?thesis by simp
    next
      case NoReturn
      with Suc.prems False rl show ?thesis by simp
    qed
  qed
qed

lemma polling_loop_timing:
  "waits_then_reloads (poll_interval c) (timing (snd (snd (polling_loop n lib c p w))))"
proof (induction n arbitrary: p w)
  case 0
  then show ?case by (simp add: timing_def)
next
  case (Suc k)
  show ?case
  proof (cases "terminal (status p)")
    case True
    then show ?thesis by (simp add: timing_def)
  next
    case False
    obtain r w1 where rl: "async_reload lib p w = (r, w1)" by (cases "async_reload lib p w")
    show ?thesis
    proof (cases r)
      case (Return p1)
      obtain r2 w2 evs2 where pl: "polling_loop k lib c p1 w1 = (r2, w2, evs2)"
        by (cases "polling_loop k lib c p1 w1")
      from Suc.IH [of p1 w1] pl have "waits_then_reloads (poll_interval c) (timing evs2)" by simp
      with False rl Return pl show ?thesis by (simp add: timing_def)
    next
      case (Raise e)
      with False rl show ?thesis by (simp add: timing_def)
    next
      case NoReturn
      with False rl show ?thesis by (simp add: timing_def)
    qed
  qed
qed

section \<open>The handler and the cleanup\<close>

lemma polling_loop_no_close:
  "Call_close \<notin> set (snd (snd (polling_loop n lib c p w)))"
proof (induction n arbitrary: p w)
  case 0
  show ?case by simp
next
  case (Suc k)
  show ?case
  proof (cases "terminal (status p)")
    case True
    then show ?thesis by simp
  next
    case False
    obtain r w1 where rl: "async_reload lib p w = (r, w1)" by (cases "async_reload lib p w")
    show ?thesis
    proof (cases r)
      case (Return p1)
      obtain r2 w2 evs2 where pl: "polling_loop k lib c p1 w1 = (r2, w2, evs2)"
        by (cases "polling_loop k lib c p1 w1")
      from Suc.IH [of p1 w1] pl have "Call_close \<notin> set evs2" by simp
      with False rl Return pl show ?thesis by simp
    next
      case (Raise e)
      with False rl show ?thesis by simp
    next
      case NoReturn
      with False rl show ?thesis by simp
    qed
  qed
qed

lemma print_outputs_no_close: "Call_close \<notin> set (print_outputs p)"
  by (auto simp: print_outputs_def)

lemma create_and_poll_image_body_no_close:
  "Call_close \<notin> set (snd (snd (create_and_poll_image_body n lib c args w)))"
proof -
  have pl: "Call_close \<notin> set evs2" if "polling_loop n lib c p w1 = (r, w2, evs2)" for p w1 r w2 evs2
    using polling_loop_no_close [of n lib c p w1] that by simp
  show ?thesis
    unfolding create_and_poll_image_body_def
    by (auto simp: Let_def print_outputs_no_close split: sum.splits prod.splits outcome.splits dest: pl)
qed

lemma generate_image_body_no_close:
  "Call_close \<notin> set (snd (snd (generate_image_body lib c args w)))"
  unfolding generate_image_body_def
  by (auto simp: Let_def print_outputs_no_close split: sum.splits prod.splits outcome.splits)

lemma generate_image_async_body_no_close:
  "Call_close \<notin> set (snd (snd (generate_image_async_body lib c args w)))"
  unfolding generate_image_async_body_def
  by (auto simp: Let_def print_outputs_no_close split: sum.splits prod.splits outcome.splits)

lemma try_leaves_then_close:
  assumes "fst x \<noteq> NoReturn" and "Call_close \<notin> set (snd (snd x))"
  shows "count_list (snd (snd (finally_close lib c (except_Exception x)))) Call_close = 1
       \<and> snd (snd (finally_close lib c (except_Exception x))) \<noteq> []
       \<and> last (snd (snd (finally_close lib c (except_Exception x)))) = Call_close"
proof -
  obtain r w evs where x: "x = (r, w, evs)" by (cases x)
  obtain rc wc where cl: "close lib c w = (rc, wc)" by (cases "close lib c w")
  from assms x have nc: "count_list evs Call_close = 0" by simp
  show ?thesis
  proof (cases r)
    case (Return u)
    with x cl nc show ?thesis
      by (cases rc) (simp_all add: except_Exception_def finally_close_def)
  next
    case (Raise e)
    with x cl nc show ?thesis
      by (cases rc; cases "is_Exception e") (simp_all add: except_Exception_def finally_close_def)
  next
    case NoReturn
    with assms x show ?thesis by simp
  qed
qed

lemma exception_then_exit_1:
  assumes "x = (Raise e, w, evs)" and "is_Exception e"
  shows "snd (snd (finally_close lib c (except_Exception x)))
           = evs @ [Log_exception e, Print (Error_generating_image e), Call_close]"
    and "fst (close lib c w) = Return () \<Longrightarrow>
           fst (finally_close lib c (except_Exception x)) = Raise (SystemExit 1)"
proof -
  obtain rc wc where cl: "close lib c w = (rc, wc)" by (cases "close lib c w")
  with assms show "snd (snd (finally_close lib c (except_Exception x)))
           = evs @ [Log_exception e, Print (Error_generating_image e), Call_close]"
    by (cases rc) (simp_all add: except_Exception_def finally_close_def)
  assume "fst (close lib c w) = Return ()"
  with cl assms show "fst (finally_close lib c (except_Exception x)) = Raise (SystemExit 1)"
    by (simp add: except_Exception_def finally_close_def)
qed

lemma polling_loop_never_ends:
  assumes stay: "\<And>q v. \<exists>q' v'. async_reload lib q v = (Return q', v') \<and> \<not> terminal (status q')"
    and start: "\<not> terminal (status p)"
  shows "fst (polling_loop n lib c p w) = NoReturn
       \<and> length (filter is_sleep (snd (snd (polling_loop n lib c p w)))) = n
       \<and> length (filter is_reload (snd (snd (polling_loop n lib c p w)))) = n"
  using start
proof (induction n arbitrary: p w)
  case 0
  then show ?case by simp
next
  case (Suc k)
  from stay [of p w] obtain p1 w1 where
    rl: "async_reload lib p w = (Return p1, w1)" and nt: "\<not> terminal (status p1)" by blast
  obtain r2 w2 evs2 where pl: "polling_loop k lib c p1 w1 = (r2, w2, evs2)"
    by (cases "polling_loop k lib c p1 w1")
  from Suc.IH [OF nt, of w1] pl have "r2 = NoReturn"
    and "length (filter is_sleep evs2) = k" and "length (filter is_reload evs2) = k" by simp_all
  with Suc.prems rl pl show ?case by simp
qed

section \<open>Parsing the command line\<close>

lemma find_argument_in_parser:
  "find_argument parser opt = Some a \<Longrightarrow> a \<in> set parser \<and> opt \<in> set (option_strings a)"
  by (auto simp: find_argument_def find_Some_iff)

lemma consume_tokens_keeps_flag:
  assumes "\<And>a. a \<in> set parser \<Longrightarrow> dest a = d \<Longrightarrow> action a = Store_true"
    and "consume_tokens py parser ts (ns, seen, ex) = Inr (ns', seen', ex')"
    and "ns d = Some (PBool True)"
  shows "ns' d = Some (PBool True)"
  using assms(2,3)
proof (induction ts arbitrary: ns seen ex)
  case Nil
  then show ?case by simp
next
  case (Cons tk ts)
  show ?case
  proof (cases tk)
    case (Extra s)
    with Cons show ?thesis by simp
  next
    case (Optional opt arg)
    show ?thesis
    proof (cases "find_argument parser opt")
      case None
      with Cons Optional show ?thesis by simp
    next
      case (Some a)
      then have a: "a \<in> set parser" by (simp add: find_argument_in_parser)
      from Cons.prems(1) Optional Some obtain ns1 where
        ta: "take_action py a arg ns = Inr ns1" and
        rest: "consume_tokens py parser ts (ns1, dest a # seen, ex) = Inr (ns', seen', ex')"
        by (auto split: sum.splits)
      have "ns1 d = Some (PBool True)"
      proof (cases "dest a = d")
        case True
        with assms(1) [OF a] have "action a = Store_true" by simp
        with ta True show ?thesis by (auto split: option.splits)
      next
        case False
        with ta Cons.prems(2) show ?thesis
          by (auto split: action.splits option.splits)
      qed
      with Cons.IH rest show ?thesis by blast
    qed
  qed
qed

lemma consume_tokens_untouched:
  assumes "\<And>opt arg a. Optional opt arg \<in> set ts \<Longrightarrow> find_argument parser opt = Some a \<Longrightarrow> dest a \<noteq> d"
    and "consume_tokens py parser ts (ns, seen, ex) = Inr (ns', seen', ex')"
  shows "ns' d = ns d"
  using assms
proof (induction ts arbitrary: ns seen ex)
  case Nil
  then show ?case by simp
next
  case (Cons tk ts)
  have tl: "dest a \<noteq> d" if "Optional opt arg \<in> set ts" "find_argument parser opt = Some a" for opt arg a
    using Cons.prems(1) [of opt arg a] that by simp
  show ?case
  proof (cases tk)
    case (Extra s)
    with Cons.prems(2) have "consume_tokens py parser ts (ns, seen, True) = Inr (ns', seen', ex')" by simp
    from Cons.IH [OF tl this] show ?thesis by simp
  next
    case (Optional opt arg)
    show ?thesis
    proof (cases "find_argument parser opt")
      case None
      with Cons.prems(2) Optional
      have "consume_tokens py parser ts (ns, seen, True) = Inr (ns', seen', ex')" by simp
      from Cons.IH [OF tl this] show ?thesis by simp
    next
      case (Some a)
      from Cons.prems(1) [of opt arg a] Optional Some have nd: "dest a \<noteq> d" by simp
      from Cons.prems(2) Optional Some obtain ns1 where
        ta: "take_action py a arg ns = Inr ns1" and
        rest: "consume_tokens py parser ts (ns1, dest a # seen, ex) = Inr (ns', seen', ex')"
        by (auto split: sum.splits)
      from ta nd have "ns1 d = ns d"
        by (auto split: action.splits option.splits)
      moreover from Cons.IH [OF tl rest] have "ns' d = ns1 d" by simp
      ultimately show ?thesis by simp
    qed
  qed
qed

lemma parse_args_flag:
  assumes "\<And>a. a \<in> set parser \<Longrightarrow> dest a = d \<Longrightarrow> action a = Store_true"
    and "set_defaults parser Map.empty d = Some (PBool True)"
    and "parse_args py parser argv = Inr args"
  shows "args d = Some (PBool True)"
proof -
  from assms(3) obtain ts seen ex where
    "consume_tokens py parser ts (set_defaults parser Map.empty, [], False) = Inr (args, seen, ex)"
    by (auto simp: parse_args_def split: option.splits sum.splits if_splits)
  from consume_tokens_keeps_flag [OF assms(1) this assms(2)] show ?thesis by simp
qed

lemma safety_generate_image:
  "parse_args py (parser_generate_image environ) argv = Inr args \<Longrightarrow> args ''safety'' = Some (PBool True)"
  by (rule parse_args_flag [where parser = "parser_generate_image environ"])
     (auto simp: parser_generate_image_def generation_arguments_def ArgumentParser_def
        add_argument_def dest_of_def)

lemma safety_async_generate_image:
  "parse_args py (parser_async_generate_image environ) argv = Inr args \<Longrightarrow> args ''safety'' = Some (PBool True)"
  by (rule parse_args_flag [where parser = "parser_async_generate_image environ"])
     (auto simp: parser_async_generate_image_def generation_arguments_def ArgumentParser_def
        add_argument_def dest_of_def)

lemma safety_async_create_generate_image:
  "parse_args py (parser_async_create_generate_image environ) argv = Inr args \<Longrightarrow> args ''safety'' = Some (PBool True)"
  by (rule parse_args_flag [where parser = "parser_async_create_generate_image environ"])
     (auto simp: parser_async_create_generate_image_def generation_arguments_def ArgumentParser_def
        add_argument_def dest_of_def)

lemma poll_async_create_generate_image:
  "parse_args py (parser_async_create_generate_image environ) argv = Inr args \<Longrightarrow> args ''poll'' = Some (PBool True)"
  by (rule parse_args_flag [where parser = "parser_async_create_generate_image environ"])
     (auto simp: parser_async_create_generate_image_def generation_arguments_def ArgumentParser_def
        add_argument_def dest_of_def)

lemma parse_args_api_key_unset:
  assumes env: "environ ''WAVESPEED_API_KEY'' = None"
    and par: "parser \<in> {parser_generate_image environ, parser_async_generate_image environ,
                parser_async_create_generate_image environ}"
    and no_opt: "\<And>ts arg. match_args py parser argv = Some ts \<Longrightarrow> Optional ''--api-key'' arg \<notin> set ts"
    and ok: "parse_args py parser argv = Inr args"
  shows "args ''api_key'' = Some PNone"
proof -
  from ok obtain ts seen ex where
    m: "match_args py parser argv = Some ts" and
    ct: "consume_tokens py parser ts (set_defaults parser Map.empty, [], False) = Inr (args, seen, ex)"
    by (auto simp: parse_args_def split: option.splits sum.splits if_splits)
  have only: "opt = ''--api-key''" if "find_argument parser opt = Some a" "dest a = ''api_key''" for opt a
    using find_argument_in_parser [OF that(1)] that(2) par
    by (auto simp: parser_generate_image_def parser_async_generate_image_def
        parser_async_create_generate_image_def generation_arguments_def ArgumentParser_def
        add_argument_def dest_of_def)
  have "dest a \<noteq> ''api_key''" if "Optional opt arg \<in> set ts" "find_argument parser opt = Some a" for opt arg a
    using only [OF that(2)] no_opt [OF m, of arg] that(1) by auto
  from consume_tokens_untouched [OF this ct]
  have "args ''api_key'' = set_defaults parser Map.empty ''api_key''" by simp
  also from par env have "\<dots> = Some PNone"
    by (auto simp: parser_generate_image_def parser_async_generate_image_def
        parser_async_create_generate_image_def generation_arguments_def ArgumentParser_def
        add_argument_def dest_of_def environ_get_def)
  finally show ?thesis .
qed

lemma main_generate_image_exit:
  "parse_args py (parser_generate_image environ) argv = Inl code \<Longrightarrow>
     main_generate_image py lib argv environ w = (Raise (SystemExit code), w, [])"
  "parse_args py (parser_generate_image environ) argv = Inr args \<Longrightarrow> args ''api_key'' = Some k \<Longrightarrow>
     \<not> truthy k \<Longrightarrow>
     main_generate_image py lib argv environ w = (Raise (SystemExit 1), w, [Print API_key_is_required])"
  by (simp_all add: main_generate_image_def getattr_def)

lemma main_async_generate_image_exit:
  "parse_args py (parser_async_generate_image environ) argv = Inl code \<Longrightarrow>
     main_async_generate_image py lib argv environ w = (Raise (SystemExit code), w, [])"
  "parse_args py (parser_async_generate_image environ) argv = Inr args \<Longrightarrow> args ''api_key'' = Some k \<Longrightarrow>
     \<not> truthy k \<Longrightarrow>
     main_async_generate_image py lib argv environ w = (Raise (SystemExit 1), w, [Print API_key_is_required])"
  by (simp_all add: main_async_generate_image_def getattr_def)

lemma main_async_create_generate_image_exit:
  "parse_args py (parser_async_create_generate_image environ) argv = Inl code \<Longrightarrow>
     main_async_create_generate_image n py lib argv environ w = (Raise (SystemExit code), w, [])"
  "parse_args py (parser_async_create_generate_image environ) argv = Inr args \<Longrightarrow> args ''api_key'' = Some k \<Longrightarrow>
     \<not> truthy k \<Longrightarrow>
     main_async_create_generate_image n py lib argv environ w = (Raise (SystemExit 1), w, [Print API_key_is_required])"
  by (simp_all add: main_async_create_generate_image_def getattr_def)

lemma handlers_add_no_request:
  assumes "ev \<in> set (snd (snd (finally_close lib c (except_Exception x))))"
  shows "ev \<in> set (snd (snd x)) \<or> ev = Call_close
       \<or> (\<exists>e. ev = Log_exception e \<or> ev = Print (Error_generating_image e))"
proof -
  obtain r w evs where x: "x = (r, w, evs)" by (cases x)
  obtain rc wc where cl: "close lib c w = (rc, wc)" by (cases "close lib c w")
  from assms x cl show ?thesis
    by (cases r; cases rc)
       (auto simp: except_Exception_def finally_close_def split: if_splits)
qed

lemma input_dict_safety:
  "input_dict args = Inr inp \<Longrightarrow> args ''safety'' = Some v \<Longrightarrow>
     map_of inp ''enable_safety_checker'' = Some v"
  by (auto simp: input_dict_def getattr_def split: option.splits sum.splits)

lemma polling_loop_no_create:
  "Call_async_create m i \<notin> set (snd (snd (polling_loop n lib c p w)))"
proof (induction n arbitrary: p w)
  case 0
  show ?case by simp
next
  case (Suc k)
  show ?case
  proof (cases "terminal (status p)")
    case True
    then show ?thesis by simp
  next
    case False
    obtain r w1 where rl: "async_reload lib p w = (r, w1)" by (cases "async_reload lib p w")
    show ?thesis
    proof (cases r)
      case (Return p1)
      obtain r2 w2 evs2 where pl: "polling_loop k lib c p1 w1 = (r2, w2, evs2)"
        by (cases "polling_loop k lib c p1 w1")
      from Suc.IH [of p1 w1] pl have "Call_async_create m i \<notin> set evs2" by simp
      with False rl Return pl show ?thesis by simp
    next
      case (Raise e)
      with False rl show ?thesis by simp
    next
      case NoReturn
      with False rl show ?thesis by simp
    qed
  qed
qed

lemma generate_image_request:
  assumes "Call_run m i \<in> set (snd (snd (generate_image lib c args w)))"
  shows "input_dict args = Inr i"
proof -
  from handlers_add_no_request [OF assms [unfolded generate_image_def]]
  have "Call_run m i \<in> set (snd (snd (generate_image_body lib c args w)))" by auto
  then show ?thesis
    unfolding generate_image_body_def
    by (auto simp: Let_def print_outputs_def split: sum.splits prod.splits outcome.splits if_splits)
qed

lemma generate_image_async_request:
  assumes "Call_async_run m i \<in> set (snd (snd (generate_image_async lib c args w)))"
  shows "input_dict args = Inr i"
proof -
  from handlers_add_no_request [OF assms [unfolded generate_image_async_def]]
  have "Call_async_run m i \<in> set (snd (snd (generate_image_async_body lib c args w)))" by auto
  then show ?thesis
    unfolding generate_image_async_body_def
    by (auto simp: Let_def print_outputs_def split: sum.splits prod.splits outcome.splits if_splits)
qed

lemma create_and_poll_image_request:
  assumes "Call_async_create m i \<in> set (snd (snd (create_and_poll_image n lib c args w)))"
  shows "input_dict args = Inr i"
proof -
  have pl: "Call_async_create m i \<notin> set evs2" if "polling_loop n lib c p w1 = (r, w2, evs2)" for p w1 r w2 evs2
    using polling_loop_no_create [of m i n lib c p w1] that by simp
  from handlers_add_no_request [OF assms [unfolded create_and_poll_image_def]]
  have "Call_async_create m i \<in> set (snd (snd (create_and_poll_image_body n lib c args w)))" by auto
  then show ?thesis
    unfolding create_and_poll_image_body_def
    by (auto simp: Let_def print_outputs_def split: sum.splits prod.splits outcome.splits if_splits dest: pl)
qed

lemma main_generate_image_request:
  assumes "Call_run m i \<in> set (snd (snd (main_generate_image py lib argv environ w)))"
  shows "\<exists>args. parse_args py (parser_generate_image environ) argv = Inr args \<and> input_dict args = Inr i"
proof -
  have g: "input_dict args = Inr i" if "generate_image lib c args v = (r, v', evs)" "Call_run m i \<in> set evs"
    for c args v r v' evs
    using generate_image_request [of m i lib c args v] that by simp
  from assms show ?thesis
    unfolding main_generate_image_def
    by (auto split: sum.splits if_splits prod.splits outcome.splits dest: g)
qed

section \<open>The specified library\<close>

lemma mirror_invariant:
  "job_invariant (p\<lparr>status := status_of st, outputs := outputs_of st, error := error_of st, urls := l\<rparr>)"
  by (cases st) (simp_all add: job_invariant_def terminal_def)

lemma spec_reload_failure:
  "spec_reload t p s = (Raise e, p', s') \<Longrightarrow> p' = p \<and> e = Exception ''RequestError''"
  by (auto simp: spec_reload_def split: prod.splits option.splits)

lemma spec_reload_invariant:
  "job_invariant p \<Longrightarrow> job_invariant (fst (snd (spec_reload t p s)))"
  by (auto simp: spec_reload_def mirror_invariant split: prod.splits option.splits)

lemma spec_create_invariant:
  "spec_create t c m i s = (Return p, s') \<Longrightarrow> job_invariant p"
proof -
  have "job_invariant \<lparr>id' = j, status = status_of st, outputs = outputs_of st, error = error_of st, urls = l\<rparr>"
    for j st l
    by (cases st) (simp_all add: job_invariant_def terminal_def)
  then show "spec_create t c m i s = (Return p, s') \<Longrightarrow> job_invariant p"
    by (auto simp: spec_create_def split: if_splits prod.splits option.splits)
qed

lemma spec_run_loop_invariant:
  "job_invariant p \<Longrightarrow> spec_run_loop n t c p s = (Return p', s') \<Longrightarrow> job_invariant p'"
proof (induction n arbitrary: p s)
  case 0
  then show ?case by (simp split: if_splits)
next
  case (Suc k)
  show ?case
  proof (cases "terminal (status p)")
    case True
    with Suc.prems show ?thesis by simp
  next
    case False
    let ?s = "s\<lparr>wire_log := wire_log s @ [Wait (poll_interval c)]\<rparr>"
    obtain r p1 s1 where rl: "spec_reload t p ?s = (r, p1, s1)" by (cases "spec_reload t p ?s")
    from spec_reload_invariant [OF Suc.prems(1), of t ?s] rl have inv: "job_invariant p1" by simp
    from Suc.prems(2) False rl have "spec_run_loop k t c p1 s1 = (Return p', s')"
      by (cases r) simp_all
    from Suc.IH [OF inv this] show ?thesis .
  qed
qed

lemma spec_run_invariant:
  "spec_run n t c m i s = (Return p, s') \<Longrightarrow> job_invariant p"
proof -
  assume a: "spec_run n t c m i s = (Return p, s')"
  obtain r s1 where cr: "spec_create t c m i s = (r, s1)" by (cases "spec_create t c m i s")
  from a cr obtain p0 where r: "r = Return p0" and l: "spec_run_loop n t c p0 s1 = (Return p, s')"
    by (cases r) (simp_all add: spec_run_def)
  from spec_create_invariant cr r have "job_invariant p0" by simp
  from spec_run_loop_invariant [OF this l] show ?thesis .
qed

lemma spec_reload_log:
  "wire_log (snd (snd (spec_reload t p s))) = wire_log s @ [Status_request (id' p)]"
  by (auto simp: spec_reload_def split: prod.splits option.splits)

lemma spec_run_loop_log:
  "\<exists>ws. wire_log (snd (spec_run_loop n t c p s)) = wire_log s @ ws
        \<and> waits_then_requests (poll_interval c) ws"
proof (induction n arbitrary: p s)
  case 0
  show ?case by simp
next
  case (Suc k)
  show ?case
  proof (cases "terminal (status p)")
    case True
    then show ?thesis by simp
  next
    case False
    let ?s = "s\<lparr>wire_log := wire_log s @ [Wait (poll_interval c)]\<rparr>"
    obtain r p1 s1 where rl: "spec_reload t p ?s = (r, p1, s1)" by (cases "spec_reload t p ?s")
    from spec_reload_log [of t p ?s] rl
    have log1: "wire_log s1 = wire_log s @ [Wait (poll_interval c), Status_request (id' p)]" by simp
    show ?thesis
    proof (cases r)
      case (Return u)
      from Suc.IH [of p1 s1] obtain ws where
        "wire_log (snd (spec_run_loop k t c p1 s1)) = wire_log s1 @ ws"
        "waits_then_requests (poll_interval c) ws" by blast
      with log1 False rl Return show ?thesis
        by (intro exI [of _ "Wait (poll_interval c) # Status_request (id' p) # ws"]) simp
    next
      case (Raise e)
      with log1 False rl show ?thesis by simp
    next
      case NoReturn
      with log1 False rl show ?thesis by simp
    qed
  qed
qed

section \<open>The script around the loop\<close>

lemma timing_print_outputs: "timing (print_outputs p) = []"
  by (auto simp: timing_def print_outputs_def filter_empty_conv)

lemma timing_handlers:
  "timing (events (finally_close lib c (except_Exception x))) = timing (events x)"
proof -
  obtain r w evs where x: "x = (r, w, evs)" by (cases x)
  obtain rc wc where cl: "close lib c w = (rc, wc)" by (cases "close lib c w")
  from x cl show ?thesis
    by (cases r; cases rc)
       (auto simp: except_Exception_def finally_close_def timing_def split: if_splits)
qed

lemma body_when_completed_at_creation:
  assumes "getattr args ''prompt'' = Inr prompt" and "input_dict args = Inr inp"
    and "async_create lib c ''wavespeed-ai/flux-dev'' inp w = (Return p, w1)"
    and "status p = ''completed''"
    and "getattr args ''poll'' = Inr poll" and "truthy poll"
  shows "create_and_poll_image_body n lib c args w =
     (Return (), w1,
      [Print (Creating_job prompt), Call_async_create ''wavespeed-ai/flux-dev'' inp,
       Print (Job_created (id' p)), Print (Status_URL (get (urls p))),
       Print (Initial_status ''completed''), Print Polling_for_status_updates,
       Print (Final_status ''completed''), Print Image_generation_successful] @ print_outputs p)"
proof -
  from assms(4) have "terminal (status p)" by (simp add: terminal_def)
  then have "polling_loop n lib c p w1 = (Return p, w1, [])" by (cases n) simp_all
  with assms show ?thesis
    by (simp add: create_and_poll_image_body_def)
qed

lemma script_no_timing_when_completed_at_creation:
  assumes "input_dict args = Inr inp"
    and "async_create lib c ''wavespeed-ai/flux-dev'' inp w = (Return p, w1)"
    and "status p = ''completed''"
  shows "timing (events (create_and_poll_image n lib c args w)) = []"
proof -
  from assms(3) have "terminal (status p)" by (simp add: terminal_def)
  then have pl: "polling_loop n lib c p w1 = (Return p, w1, [])" by (cases n) simp_all
  from assms(1) obtain prompt where pr: "getattr args ''prompt'' = Inr prompt"
    by (auto simp: input_dict_def split: sum.splits)
  have "timing (events (create_and_poll_image_body n lib c args w)) = []"
    using assms pl pr timing_print_outputs [of p]
    by (auto simp: create_and_poll_image_body_def timing_def Let_def split: sum.splits)
  then show ?thesis by (simp add: create_and_poll_image_def timing_handlers)
qed

lemma script_reload_nonterminal:
  assumes "Call_async_reload q \<in> set (events (create_and_poll_image n lib c args w))"
  shows "\<not> terminal (status q)"
proof -
  have pl: "\<not> terminal (status q)"
    if "polling_loop n lib c p w1 = (r, w2, evs2)" "Call_async_reload q \<in> set evs2" for p w1 r w2 evs2
    using polling_loop_reload_nonterminal [of q n lib c p w1] that by simp
  from handlers_add_no_request [OF assms [unfolded create_and_poll_image_def]]
  have "Call_async_reload q \<in> set (events (create_and_poll_image_body n lib c args w))" by auto
  then show ?thesis
    unfolding create_and_poll_image_body_def
    by (auto simp: Let_def print_outputs_def split: sum.splits prod.splits outcome.splits if_splits dest: pl)
qed

lemma polling_loop_twice_then_completed:
  assumes "status p = ''processing''" and "async_reload lib p w = (Return p1, w1)"
    and "status p1 = ''processing''" and "async_reload lib p1 w1 = (Return p2, w2)"
    and "status p2 = ''completed''"
  shows "polling_loop (Suc (Suc n)) lib c p w =
     (Return p2, w2,
      [Sleep (poll_interval c), Print (Current_status ''processing'' (poll_interval c)),
       Call_async_reload p,
       Sleep (poll_interval c), Print (Current_status ''processing'' (poll_interval c)),
       Call_async_reload p1])"
proof -
  from assms(5) have "terminal (status p2)" by (simp add: terminal_def)
  then have "polling_loop n lib c p2 w2 = (Return p2, w2, [])" by (cases n) simp_all
  with assms show ?thesis by (simp add: terminal_def)
qed

section \<open>Further facts about the scripts and the specified library\<close>

lemma spec_run_twice_then_completed:
  assumes "truthy (api_key c)"
    and "create_job t m i (remote s) = (Some r0, x1)" and "initial r0 = Processing"
    and "status_check t (job_id r0) x1 = (Some r1, x2)" and "state r1 = Processing"
    and "status_check t (job_id r0) x2 = (Some r2, x3)" and "state r2 = Completed os"
  shows "spec_run (Suc (Suc n)) t c m i s =
     (Return \<lparr>id' = job_id r0, status = ''completed'', outputs = os, error = None,
              urls = status_links r2\<rparr>,
      s\<lparr>remote := x3,
        wire_log := wire_log s @
          [Create_request m i,
           Wait (poll_interval c), Status_request (job_id r0),
           Wait (poll_interval c), Status_request (job_id r0)]\<rparr>)"
proof -
  have fin: "spec_run_loop n t c p s' = (Return p, s')" if "status p = ''completed''" for p s'
    using that by (cases n) (simp_all add: terminal_def)
  from assms show ?thesis
    by (simp add: spec_run_def spec_create_def spec_reload_def terminal_def fin)
qed

lemma spec_run_completed_at_creation:
  assumes "truthy (api_key c)"
    and "create_job t m i (remote s) = (Some r0, x1)" and "initial r0 = Completed os"
  shows "spec_run n t c m i s =
     (Return \<lparr>id' = job_id r0, status = ''completed'', outputs = os, error = None,
              urls = links r0\<rparr>,
      s\<lparr>remote := x1, wire_log := wire_log s @ [Create_request m i]\<rparr>)"
proof -
  have fin: "spec_run_loop n t c p s' = (Return p, s')" if "status p = ''completed''" for p s'
    using that by (cases n) (simp_all add: terminal_def)
  from assms show ?thesis
    by (simp add: spec_run_def spec_create_def fin)
qed

lemma main_async_generate_image_request:
  assumes "Call_async_run m i \<in> set (events (main_async_generate_image py lib argv environ w))"
  shows "\<exists>args. parse_args py (parser_async_generate_image environ) argv = Inr args \<and> input_dict args = Inr i"
proof -
  have g: "input_dict args = Inr i"
    if "generate_image_async lib c args v = (r, v', evs)" "Call_async_run m i \<in> set evs"
    for c args v r v' evs
    using generate_image_async_request [of m i lib c args v] that by simp
  from assms show ?thesis
    unfolding main_async_generate_image_def
    by (auto split: sum.splits if_splits prod.splits outcome.splits dest: g)
qed

lemma main_async_create_generate_image_request:
  assumes "Call_async_create m i \<in> set (events (main_async_create_generate_image n py lib argv environ w))"
  shows "\<exists>args. parse_args py (parser_async_create_generate_image environ) argv = Inr args
            \<and> input_dict args = Inr i"
proof -
  have g: "input_dict args = Inr i"
    if "create_and_poll_image n lib c args v = (r, v', evs)" "Call_async_create m i \<in> set evs"
    for c args v r v' evs
    using create_and_poll_image_request [of m i n lib c args v] that by simp
  from assms show ?thesis
    unfolding main_async_create_generate_image_def
    by (auto split: sum.splits if_splits prod.splits outcome.splits dest: g)
qed

lemma no_key_generate_image:
  assumes env: "environ ''WAVESPEED_API_KEY'' = None"
    and no_opt: "\<forall>ts arg. match_args py (parser_generate_image environ) argv = Some ts \<longrightarrow>
                   Optional ''--api-key'' arg \<notin> set ts"
  shows "(\<exists>code. fst (main_generate_image py lib argv environ w) = Raise (SystemExit code))
       \<and> filter is_library_call (events (main_generate_image py lib argv environ w)) = []
       \<and> (\<forall>args. parse_args py (parser_generate_image environ) argv = Inr args \<longrightarrow>
            main_generate_image py lib argv environ w
              = (Raise (SystemExit 1), w, [Print API_key_is_required]))"
proof (cases "parse_args py (parser_generate_image environ) argv")
  case (Inl code)
  from main_generate_image_exit(1) [OF this, of lib w] Inl show ?thesis by simp
next
  case (Inr args)
  have "args ''api_key'' = Some PNone"
    by (rule parse_args_api_key_unset
          [where parser = "parser_generate_image environ" and environ = environ and py = py and argv = argv])
       (use env no_opt Inr in auto)
  from main_generate_image_exit(2) [OF Inr this, of lib w] Inr show ?thesis by simp
qed

lemma no_key_async_generate_image:
  assumes env: "environ ''WAVESPEED_API_KEY'' = None"
    and no_opt: "\<forall>ts arg. match_args py (parser_async_generate_image environ) argv = Some ts \<longrightarrow>
                   Optional ''--api-key'' arg \<notin> set ts"
  shows "(\<exists>code. fst (main_async_generate_image py lib argv environ w) = Raise (SystemExit code))
       \<and> filter is_library_call (events (main_async_generate_image py lib argv environ w)) = []
       \<and> (\<forall>args. parse_args py (parser_async_generate_image environ) argv = Inr args \<longrightarrow>
            main_async_generate_image py lib argv environ w
              = (Raise (SystemExit 1), w, [Print API_key_is_required]))"
proof (cases "parse_args py (parser_async_generate_image environ) argv")
  case (Inl code)
  from main_async_generate_image_exit(1) [OF this, of lib w] Inl show ?thesis by simp
next
  case (Inr args)
  have "args ''api_key'' = Some PNone"
    by (rule parse_args_api_key_unset
          [where parser = "parser_async_generate_image environ" and environ = environ and py = py and argv = argv])
       (use env no_opt Inr in auto)
  from main_async_generate_image_exit(2) [OF Inr this, of lib w] Inr show ?thesis by simp
qed

lemma no_key_async_create_generate_image:
  assumes env: "environ ''WAVESPEED_API_KEY'' = None"
    and no_opt: "\<forall>ts arg. match_args py (parser_async_create_generate_image environ) argv = Some ts \<longrightarrow>
                   Optional ''--api-key'' arg \<notin> set ts"
  shows "(\<exists>code. fst (main_async_create_generate_image n py lib argv environ w) = Raise (SystemExit code))
       \<and> filter is_library_call (events (main_async_create_generate_image n py lib argv environ w)) = []
       \<and> (\<forall>args. parse_args py (parser_async_create_generate_image environ) argv = Inr args \<longrightarrow>
            main_async_create_generate_image n py lib argv environ w
              = (Raise (SystemExit 1), w, [Print API_key_is_required]))"
proof (cases "parse_args py (parser_async_create_generate_image environ) argv")
  case (Inl code)
  from main_async_create_generate_image_exit(1) [OF this, of n lib w] Inl show ?thesis by simp
next
  case (Inr args)
  have "args ''api_key'' = Some PNone"
    by (rule parse_args_api_key_unset
          [where parser = "parser_async_create_generate_image environ" and environ = environ and py = py and argv = argv])
       (use env no_opt Inr in auto)
  from main_async_create_generate_image_exit(2) [OF Inr this, of n lib w] Inr show ?thesis by simp
qed

lemma polling_loop_invariant:
  assumes step: "\<And>q v q' v'. I q \<Longrightarrow> async_reload lib q v = (Return q', v') \<Longrightarrow> I q'"
    and start: "I p"
  shows "(\<forall>q. Call_async_reload q \<in> set (events (polling_loop n lib c p w)) \<longrightarrow> I q)
       \<and> (\<forall>p'. fst (polling_loop n lib c p w) = Return p' \<longrightarrow> I p')"
  using start
proof (induction n arbitrary: p w)
  case 0
  then show ?case by simp
next
  case (Suc k)
  show ?case
  proof (cases "terminal (status p)")
    case True
    with Suc.prems show ?thesis by simp
  next
    case False
    obtain r w1 where rl: "async_reload lib p w = (r, w1)" by (cases "async_reload lib p w")
    show ?thesis
    proof (cases r)
      case (Return p1)
      obtain r2 w2 evs2 where pl: "polling_loop k lib c p1 w1 = (r2, w2, evs2)"
        by (cases "polling_loop k lib c p1 w1")
      from step [OF Suc.prems] rl Return have "I p1" by simp
      from Suc.IH [OF this, of w1] pl
      have "\<forall>q. Call_async_reload q \<in> set evs2 \<longrightarrow> I q" and "\<forall>p'. r2 = Return p' \<longrightarrow> I p'"
        by simp_all
      with False rl Return pl Suc.prems show ?thesis by auto
    next
      case (Raise e)
      with False rl Suc.prems show ?thesis by auto
    next
      case NoReturn
      with False rl Suc.prems show ?thesis by auto
    qed
  qed
qed

lemma spec_library_reload_invariant:
  assumes "job_invariant q" and "async_reload (spec_library n d t) q v = (Return q', v')"
  shows "job_invariant q'"
proof -
  obtain r p1 s1 where rl: "spec_reload t q v = (r, p1, s1)" by (cases "spec_reload t q v")
  from assms(2) rl have "q' = p1"
    by (cases r) (simp_all add: spec_library_def spec_async_reload_def)
  with spec_reload_invariant [OF assms(1), of t v] rl show ?thesis by simp
qed

section \<open>Leaving the \<open>try\<close> statement\<close>

lemma try_then_close:
  assumes "r \<noteq> NoReturn"
  shows "finally_close lib c (except_Exception (r, w1, evs)) =
     (case fst (close lib c w1) of
        Return u \<Rightarrow>
          (case r of
             Raise e \<Rightarrow> if is_Exception e then Raise (SystemExit 1) else Raise e
           | Return v \<Rightarrow> Return v
           | NoReturn \<Rightarrow> NoReturn)
      | Raise e' \<Rightarrow> Raise e'
      | NoReturn \<Rightarrow> NoReturn,
      snd (close lib c w1),
      evs @
      (case r of
         Raise e \<Rightarrow> if is_Exception e then [Log_exception e, Print (Error_generating_image e)] else []
       | Return v \<Rightarrow> []
       | NoReturn \<Rightarrow> []) @
      [Call_close])"
proof -
  obtain rc wc where cl: "close lib c w1 = (rc, wc)" by (cases "close lib c w1")
  show ?thesis
  proof (cases r)
    case (Return v)
    with cl show ?thesis
      by (cases rc) (simp_all add: except_Exception_def finally_close_def)
  next
    case (Raise e)
    with cl show ?thesis
      by (cases rc; cases "is_Exception e") (simp_all add: except_Exception_def finally_close_def)
  next
    case NoReturn
    with assms show ?thesis by simp
  qed
qed

lemma try_never_left:
  "finally_close lib c (except_Exception (NoReturn, w1, evs)) = (NoReturn, w1, evs)"
  by (simp add: except_Exception_def finally_close_def)

lemma handled_exception_then_close:
  "\<forall>e w1 evs. x = (Raise e, w1, evs) \<and> is_Exception e \<longrightarrow>
      events (finally_close lib c (except_Exception x))
        = evs @ [Log_exception e, Print (Error_generating_image e), Call_close]
      \<and> (fst (close lib c w1) = Return () \<longrightarrow>
           fst (finally_close lib c (except_Exception x)) = Raise (SystemExit 1))"
proof (intro allI impI, elim conjE)
  fix e w1 evs assume x: "x = (Raise e, w1, evs)" and e: "is_Exception e"
  from exception_then_exit_1 [OF x e, of lib c]
  show "events (finally_close lib c (except_Exception x))
        = evs @ [Log_exception e, Print (Error_generating_image e), Call_close]
      \<and> (fst (close lib c w1) = Return () \<longrightarrow>
           fst (finally_close lib c (except_Exception x)) = Raise (SystemExit 1))"
    by blast
qed

lemma left_try_then_close:
  "\<forall>r w1 evs. x = (r, w1, evs) \<and> r \<noteq> NoReturn \<longrightarrow>
      finally_close lib c (except_Exception x) =
        (case fst (close lib c w1) of
           Return u \<Rightarrow>
             (case r of
                Raise e \<Rightarrow> if is_Exception e then Raise (SystemExit 1) else Raise e
              | Return v \<Rightarrow> Return v
              | NoReturn \<Rightarrow> NoReturn)
         | Raise e' \<Rightarrow> Raise e'
         | NoReturn \<Rightarrow> NoReturn,
         snd (close lib c w1),
         evs @
         (case r of
            Raise e \<Rightarrow> if is_Exception e then [Log_exception e, Print (Error_generating_image e)] else []
          | Return v \<Rightarrow> []
          | NoReturn \<Rightarrow> []) @
         [Call_close])"
proof (intro allI impI, elim conjE)
  fix r w1 evs assume x: "x = (r, w1, evs)" and r: "r \<noteq> NoReturn"
  from try_then_close [OF r, of lib c w1 evs]
  show "finally_close lib c (except_Exception x) =
        (case fst (close lib c w1) of
           Return u \<Rightarrow>
             (case r of
                Raise e \<Rightarrow> if is_Exception e then Raise (SystemExit 1) else Raise e
              | Return v \<Rightarrow> Return v
              | NoReturn \<Rightarrow> NoReturn)
         | Raise e' \<Rightarrow> Raise e'
         | NoReturn \<Rightarrow> NoReturn,
         snd (close lib c w1),
         evs @
         (case r of
            Raise e \<Rightarrow> if is_Exception e then [Log_exception e, Print (Error_generating_image e)] else []
          | Return v \<Rightarrow> []
          | NoReturn \<Rightarrow> []) @
         [Call_close])"
    unfolding x .
qed

lemma never_left_try_no_close:
  "\<forall>w1 evs. x = (NoReturn, w1, evs) \<longrightarrow>
      finally_close lib c (except_Exception x) = (NoReturn, w1, evs)"
  by (simp add: try_never_left)

lemma generate_image_closes:
  "fst (generate_image_body lib c args w) \<noteq> NoReturn \<longrightarrow>
      closes_at_the_end (events (generate_image lib c args w))"
proof
  assume "fst (generate_image_body lib c args w) \<noteq> NoReturn"
  from try_leaves_then_close [OF this generate_image_body_no_close]
  show "closes_at_the_end (events (generate_image lib c args w))"
    by (simp add: closes_at_the_end_def generate_image_def)
qed

lemma generate_image_async_closes:
  "fst (generate_image_async_body lib c args w) \<noteq> NoReturn \<longrightarrow>
      closes_at_the_end (events (generate_image_async lib c args w))"
proof
  assume "fst (generate_image_async_body lib c args w) \<noteq> NoReturn"
  from try_leaves_then_close [OF this generate_image_async_body_no_close]
  show "closes_at_the_end (events (generate_image_async lib c args w))"
    by (simp add: closes_at_the_end_def generate_image_async_def)
qed

lemma create_and_poll_image_closes:
  "fst (create_and_poll_image_body n lib c args w) \<noteq> NoReturn \<longrightarrow>
      closes_at_the_end (events (create_and_poll_image n lib c args w))"
proof
  assume "fst (create_and_poll_image_body n lib c args w) \<noteq> NoReturn"
  from try_leaves_then_close [OF this create_and_poll_image_body_no_close]
  show "closes_at_the_end (events (create_and_poll_image n lib c args w))"
    by (simp add: closes_at_the_end_def create_and_poll_image_def)
qed

section \<open>Running the examples\<close>

lemmas scripted_simps = scripted_def scripted_request_def scripted_prediction_def example_client_def terminal_def

lemmas script_simps = create_and_poll_image_def create_and_poll_image_body_def
  generate_image_def generate_image_body_def generate_image_async_def generate_image_async_body_def
  input_dict_def getattr_def example_args_def except_Exception_def finally_close_def
  print_outputs_def enumerate_eq_zip

lemmas transport_simps = scripted_transport_def example_session_def example_client_def

lemmas parser_simps = parser_generate_image_def parser_async_generate_image_def
  parser_async_create_generate_image_def generation_arguments_def ArgumentParser_def
  add_argument_def dest_of_def environ_get_def find_argument_def small_python_def parse_args_def

lemmas job_simps = completed_job_def processing_job_def failed_job_def

section \<open>The claims\<close>

text \<open>
  C1. For every job of the specified client, at every point: outputs are non-empty only if
  the status is \<open>'completed'\<close>, the error is set only if the status is \<open>'error'\<close>, the two are
  never both set, and both are empty while the status is not terminal. The invariant holds
  for the job that \<open>create\<close> returns, is kept by \<open>reload\<close> whether it succeeds or fails, holds
  for the job that \<open>run\<close> returns, and holds for every job that the polling loop of
  \<open>create_and_poll_image\<close> reloads or returns over the specified library.
\<close>

theorem job_invariant_maintained:
  "(\<forall>p s'. spec_create t c m i s = (Return p, s') \<longrightarrow> job_invariant p)
 \<and> (job_invariant j \<longrightarrow> job_invariant (fst (snd (spec_reload t j s))))
 \<and> (\<forall>p s'. spec_run n t c m i s = (Return p, s') \<longrightarrow> job_invariant p)
 \<and> (job_invariant j \<longrightarrow>
      (\<forall>q. Call_async_reload q \<in> set (events (polling_loop k (spec_library n d t) c j s)) \<longrightarrow>
         job_invariant q)
    \<and> (\<forall>p'. fst (polling_loop k (spec_library n d t) c j s) = Return p' \<longrightarrow> job_invariant p'))"
proof (intro conjI; (intro allI impI)?)
  fix p s' assume "spec_create t c m i s = (Return p, s')"
  then show "job_invariant p" by (rule spec_create_invariant)
next
  assume "job_invariant j"
  then show "job_invariant (fst (snd (spec_reload t j s)))" by (rule spec_reload_invariant)
next
  fix p s' assume "spec_run n t c m i s = (Return p, s')"
  then show "job_invariant p" by (rule spec_run_invariant)
next
  assume j: "job_invariant j"
  have "\<And>q v q' v'. job_invariant q \<Longrightarrow> async_reload (spec_library n d t) q v = (Return q', v') \<Longrightarrow>
          job_invariant q'"
    by (rule spec_library_reload_invariant)
  from polling_loop_invariant [where I = job_invariant, OF this j]
  show "(\<forall>q. Call_async_reload q \<in> set (events (polling_loop k (spec_library n d t) c j s)) \<longrightarrow>
         job_invariant q)
    \<and> (\<forall>p'. fst (polling_loop k (spec_library n d t) c j s) = Return p' \<longrightarrow> job_invariant p')" .
qed

theorem job_invariant_maintained_witness:
  "spec_create scripted_transport example_client ''wavespeed-ai/flux-dev'' [] (example_session [Processing])
     = (Return processing_job, \<lparr>remote = [], transport_open = True,
          wire_log = [Create_request ''wavespeed-ai/flux-dev'' []]\<rparr>)
 \<and> job_invariant processing_job
 \<and> fst (snd (spec_reload scripted_transport processing_job (example_session [Failed ''out of memory'']))) = failed_job
 \<and> job_invariant failed_job
 \<and> fst (spec_run (Suc 0) scripted_transport example_client ''wavespeed-ai/flux-dev'' []
       (example_session [Processing, Completed [''https://img/1.png'']])) = Return completed_job
 \<and> job_invariant completed_job
 \<and> events (polling_loop (Suc 0) (spec_library 0 2 scripted_transport) example_client processing_job
       (example_session [Completed [''https://img/1.png'']]))
     = [Sleep 2, Print (Current_status ''processing'' 2), Call_async_reload processing_job]
 \<and> fst (polling_loop (Suc 0) (spec_library 0 2 scripted_transport) example_client processing_job
       (example_session [Completed [''https://img/1.png'']])) = Return completed_job"
proof -
  have cr: "spec_create scripted_transport example_client ''wavespeed-ai/flux-dev'' [] (example_session [Processing])
     = (Return processing_job, \<lparr>remote = [], transport_open = True,
          wire_log = [Create_request ''wavespeed-ai/flux-dev'' []]\<rparr>)"
    by (simp add: spec_create_def transport_simps job_simps)
  have rl: "fst (snd (spec_reload scripted_transport processing_job (example_session [Failed ''out of memory'']))) = failed_job"
    by (simp add: spec_reload_def transport_simps job_simps)
  have rn: "spec_run (Suc 0) scripted_transport example_client ''wavespeed-ai/flux-dev'' []
       (example_session [Processing, Completed [''https://img/1.png'']])
     = (Return completed_job, \<lparr>remote = [], transport_open = True,
          wire_log = [Create_request ''wavespeed-ai/flux-dev'' [], Wait 2, Status_request ''job-1'']\<rparr>)"
    by (simp add: spec_run_def spec_create_def spec_reload_def transport_simps job_simps terminal_def)
  have pl: "polling_loop (Suc 0) (spec_library 0 2 scripted_transport) example_client processing_job
       (example_session [Completed [''https://img/1.png'']])
     = (Return completed_job, \<lparr>remote = [], transport_open = True, wire_log = [Status_request ''job-1'']\<rparr>,
        [Sleep 2, Print (Current_status ''processing'' 2), Call_async_reload processing_job])"
    by (simp add: spec_library_def spec_async_reload_def spec_reload_def transport_simps job_simps terminal_def)
  note t = job_invariant_maintained
    [where t = scripted_transport and c = example_client and m = "''wavespeed-ai/flux-dev''" and i = "[]"
       and j = processing_job and k = 0 and d = 2]
  from t [where s = "example_session [Processing]" and n = 0, THEN conjunct1, rule_format, OF cr]
  have i1: "job_invariant processing_job" .
  from t [where s = "example_session [Failed ''out of memory'']" and n = 0,
          THEN conjunct2, THEN conjunct1, rule_format, OF i1]
  have i2: "job_invariant failed_job" by (simp only: rl)
  from t [where s = "example_session [Processing, Completed [''https://img/1.png'']]" and n = "Suc 0",
          THEN conjunct2, THEN conjunct2, THEN conjunct1, rule_format, OF rn]
  have i3: "job_invariant completed_job" .
  have e1: "events (polling_loop (Suc 0) (spec_library 0 2 scripted_transport) example_client processing_job
       (example_session [Completed [''https://img/1.png'']]))
     = [Sleep 2, Print (Current_status ''processing'' 2), Call_async_reload processing_job]"
    by (simp only: pl snd_conv)
  have e2: "fst (polling_loop (Suc 0) (spec_library 0 2 scripted_transport) example_client processing_job
       (example_session [Completed [''https://img/1.png'']])) = Return completed_job"
    by (simp only: pl fst_conv)
  have e3: "fst (spec_run (Suc 0) scripted_transport example_client ''wavespeed-ai/flux-dev'' []
       (example_session [Processing, Completed [''https://img/1.png'']])) = Return completed_job"
    by (simp only: rn fst_conv)
  show ?thesis
    by (intro conjI) (rule cr i1 rl i2 e3 i3 e1 e2)+
qed

text \<open>
  C2. In the polling loop of \<open>create_and_poll_image\<close> a reload is issued only on a job
  whose status is neither \<open>'completed'\<close> nor \<open>'error'\<close>: every reload event of the loop, and
  of the whole entry function, carries a job with a status that is not terminal. A loop
  entered with a terminal status returns that job at once with no event, and a loop that
  returns has a terminal status; so once a reload has brought a terminal status, no reload
  follows.
\<close>

theorem reload_only_while_not_terminal:
  "(\<forall>q. Call_async_reload q \<in> set (events (polling_loop n lib c p w)) \<longrightarrow> \<not> terminal (status q))
 \<and> (terminal (status p) \<longrightarrow> polling_loop n lib c p w = (Return p, w, []))
 \<and> (\<forall>p'. fst (polling_loop n lib c p w) = Return p' \<longrightarrow> terminal (status p'))
 \<and> (\<forall>q. Call_async_reload q \<in> set (events (create_and_poll_image n lib c args w0))
        \<longrightarrow> \<not> terminal (status q))"
proof (intro conjI allI impI)
  fix q assume "Call_async_reload q \<in> set (events (polling_loop n lib c p w))"
  then show "\<not> terminal (status q)" by (rule polling_loop_reload_nonterminal)
next
  assume "terminal (status p)"
  then show "polling_loop n lib c p w = (Return p, w, [])" by (rule polling_loop_terminal)
next
  fix p' assume "fst (polling_loop n lib c p w) = Return p'"
  then show "terminal (status p')" by (rule polling_loop_Return_terminal)
next
  fix q assume "Call_async_reload q \<in> set (events (create_and_poll_image n lib c args w0))"
  then show "\<not> terminal (status q)" by (rule script_reload_nonterminal)
qed

theorem reload_only_while_not_terminal_witness:
  "Call_async_reload (scripted_prediction ''processing'')
     \<in> set (events (polling_loop (Suc (Suc 0)) scripted example_client
                      (scripted_prediction ''processing'') [''completed'']))
 \<and> \<not> terminal (status (scripted_prediction ''processing''))
 \<and> fst (polling_loop (Suc (Suc 0)) scripted example_client
           (scripted_prediction ''processing'') [''completed''])
     = Return (scripted_prediction ''completed'')
 \<and> terminal (status (scripted_prediction ''completed''))
 \<and> polling_loop (Suc (Suc 0)) scripted example_client (scripted_prediction ''completed'') []
     = (Return (scripted_prediction ''completed''), [], [])
 \<and> Call_async_reload (scripted_prediction ''processing'')
     \<in> set (events (create_and_poll_image (Suc (Suc 0)) scripted example_client example_args
                      [''processing'', ''completed'']))"
proof -
  have ev: "Call_async_reload (scripted_prediction ''processing'')
     \<in> set (events (polling_loop (Suc (Suc 0)) scripted example_client
                      (scripted_prediction ''processing'') [''completed'']))"
    by (simp add: scripted_simps)
  have ret: "fst (polling_loop (Suc (Suc 0)) scripted example_client
           (scripted_prediction ''processing'') [''completed''])
     = Return (scripted_prediction ''completed'')"
    by (simp add: scripted_simps)
  have fin: "terminal (status (scripted_prediction ''completed''))"
    by (simp add: scripted_simps)
  have sc: "Call_async_reload (scripted_prediction ''processing'')
     \<in> set (events (create_and_poll_image (Suc (Suc 0)) scripted example_client example_args
                      [''processing'', ''completed'']))"
    by (simp add: create_and_poll_image_def create_and_poll_image_body_def input_dict_def
        getattr_def example_args_def except_Exception_def finally_close_def print_outputs_def
        scripted_simps)
  from reload_only_while_not_terminal
         [of "Suc (Suc 0)" scripted example_client "scripted_prediction ''processing''"
             "[''completed'']" example_args "[''processing'', ''completed'']"]
       reload_only_while_not_terminal
         [of "Suc (Suc 0)" scripted example_client "scripted_prediction ''completed''"
             "[]" example_args "[''processing'', ''completed'']"]
       ev ret fin sc
  show ?thesis by blast
qed

text \<open>
  C3. In the polling loop, and in \<open>run\<close> of the specified client, every reload comes right
  after exactly one wait of \<open>poll_interval\<close>, the same interval each time. When the status is
  reported as processing twice and then as completed, the loop performs exactly two reloads,
  each after one such wait, and \<open>run\<close> sends exactly two status requests after the create
  request, each after one such wait.
\<close>

theorem one_wait_before_each_reload:
  "waits_then_reloads (poll_interval c) (timing (events (polling_loop n lib c p w)))
 \<and> (status p = ''processing'' \<and> async_reload lib p w = (Return p1, w1)
      \<and> status p1 = ''processing'' \<and> async_reload lib p1 w1 = (Return p2, w2)
      \<and> status p2 = ''completed'' \<longrightarrow>
    polling_loop (Suc (Suc n)) lib c p w =
      (Return p2, w2,
       [Sleep (poll_interval c), Print (Current_status ''processing'' (poll_interval c)),
        Call_async_reload p,
        Sleep (poll_interval c), Print (Current_status ''processing'' (poll_interval c)),
        Call_async_reload p1]))
 \<and> (\<exists>ws. wire_log (snd (spec_run_loop n t c j s)) = wire_log s @ ws
          \<and> waits_then_requests (poll_interval c) ws)
 \<and> (truthy (api_key c)
      \<and> create_job t m i (remote s) = (Some r0, x1) \<and> initial r0 = Processing
      \<and> status_check t (job_id r0) x1 = (Some r1, x2) \<and> state r1 = Processing
      \<and> status_check t (job_id r0) x2 = (Some r2, x3) \<and> state r2 = Completed os \<longrightarrow>
    spec_run (Suc (Suc n)) t c m i s =
      (Return \<lparr>id' = job_id r0, status = ''completed'', outputs = os, error = None,
               urls = status_links r2\<rparr>,
       s\<lparr>remote := x3,
         wire_log := wire_log s @
           [Create_request m i,
            Wait (poll_interval c), Status_request (job_id r0),
            Wait (poll_interval c), Status_request (job_id r0)]\<rparr>))"
proof (intro conjI impI)
  show "waits_then_reloads (poll_interval c) (timing (events (polling_loop n lib c p w)))"
    by (rule polling_loop_timing)
next
  assume "status p = ''processing'' \<and> async_reload lib p w = (Return p1, w1)
      \<and> status p1 = ''processing'' \<and> async_reload lib p1 w1 = (Return p2, w2)
      \<and> status p2 = ''completed''"
  then have a: "status p = ''processing''" "async_reload lib p w = (Return p1, w1)"
    "status p1 = ''processing''" "async_reload lib p1 w1 = (Return p2, w2)"
    "status p2 = ''completed''" by simp_all
  from polling_loop_twice_then_completed [OF a]
  show "polling_loop (Suc (Suc n)) lib c p w =
      (Return p2, w2,
       [Sleep (poll_interval c), Print (Current_status ''processing'' (poll_interval c)),
        Call_async_reload p,
        Sleep (poll_interval c), Print (Current_status ''processing'' (poll_interval c)),
        Call_async_reload p1])" .
next
  show "\<exists>ws. wire_log (snd (spec_run_loop n t c j s)) = wire_log s @ ws
          \<and> waits_then_requests (poll_interval c) ws"
    by (rule spec_run_loop_log)
next
  assume "truthy (api_key c)
      \<and> create_job t m i (remote s) = (Some r0, x1) \<and> initial r0 = Processing
      \<and> status_check t (job_id r0) x1 = (Some r1, x2) \<and> state r1 = Processing
      \<and> status_check t (job_id r0) x2 = (Some r2, x3) \<and> state r2 = Completed os"
  then have a: "truthy (api_key c)"
    "create_job t m i (remote s) = (Some r0, x1)" "initial r0 = Processing"
    "status_check t (job_id r0) x1 = (Some r1, x2)" "state r1 = Processing"
    "status_check t (job_id r0) x2 = (Some r2, x3)" "state r2 = Completed os" by simp_all
  from spec_run_twice_then_completed [OF a]
  show "spec_run (Suc (Suc n)) t c m i s =
      (Return \<lparr>id' = job_id r0, status = ''completed'', outputs = os, error = None,
               urls = status_links r2\<rparr>,
       s\<lparr>remote := x3,
         wire_log := wire_log s @
           [Create_request m i,
            Wait (poll_interval c), Status_request (job_id r0),
            Wait (poll_interval c), Status_request (job_id r0)]\<rparr>)" .
qed

theorem one_wait_before_each_reload_witness:
  "status (scripted_prediction ''processing'') = ''processing''
 \<and> async_reload scripted (scripted_prediction ''processing'') [''processing'', ''completed'']
     = (Return (scripted_prediction ''processing''), [''completed''])
 \<and> async_reload scripted (scripted_prediction ''processing'') [''completed'']
     = (Return (scripted_prediction ''completed''), [])
 \<and> status (scripted_prediction ''completed'') = ''completed''
 \<and> polling_loop (Suc (Suc 0)) scripted example_client (scripted_prediction ''processing'')
      [''processing'', ''completed'']
     = (Return (scripted_prediction ''completed''), [],
        [Sleep 2, Print (Current_status ''processing'' 2),
         Call_async_reload (scripted_prediction ''processing''),
         Sleep 2, Print (Current_status ''processing'' 2),
         Call_async_reload (scripted_prediction ''processing'')])
 \<and> waits_then_reloads 2
      [Sleep 2, Call_async_reload (scripted_prediction ''processing''),
       Sleep 2, Call_async_reload (scripted_prediction ''processing'')]
 \<and> truthy (api_key example_client)
 \<and> wire_log (snd (spec_run (Suc (Suc 0)) scripted_transport example_client ''wavespeed-ai/flux-dev'' []
      (example_session [Processing, Processing, Completed [''https://img/1.png'']])))
     = [Create_request ''wavespeed-ai/flux-dev'' [],
        Wait 2, Status_request ''job-1'', Wait 2, Status_request ''job-1'']
 \<and> fst (spec_run (Suc (Suc 0)) scripted_transport example_client ''wavespeed-ai/flux-dev'' []
      (example_session [Processing, Processing, Completed [''https://img/1.png'']]))
     = Return \<lparr>id' = ''job-1'', status = ''completed'', outputs = [''https://img/1.png''],
               error = None, urls = \<lparr>get = ''https://api/job-1''\<rparr>\<rparr>"
proof -
  let ?p = "scripted_prediction ''processing''" and ?q = "scripted_prediction ''completed''"
  let ?s = "example_session [Processing, Processing, Completed [''https://img/1.png'']]"
  let ?l = "\<lparr>get = ''https://api/job-1''\<rparr>"
  have h: "status ?p = ''processing''"
    "async_reload scripted ?p [''processing'', ''completed''] = (Return ?p, [''completed''])"
    "async_reload scripted ?p [''completed''] = (Return ?q, [])"
    "status ?q = ''completed''"
    by (simp_all add: scripted_simps)
  have k: "truthy (api_key example_client)"
    "create_job scripted_transport ''wavespeed-ai/flux-dev'' [] (remote ?s)
       = (Some \<lparr>job_id = ''job-1'', initial = Processing, links = ?l\<rparr>,
          [Processing, Completed [''https://img/1.png'']])"
    "status_check scripted_transport ''job-1'' [Processing, Completed [''https://img/1.png'']]
       = (Some \<lparr>state = Processing, status_links = ?l\<rparr>, [Completed [''https://img/1.png'']])"
    "status_check scripted_transport ''job-1'' [Completed [''https://img/1.png'']]
       = (Some \<lparr>state = Completed [''https://img/1.png''], status_links = ?l\<rparr>, [])"
    by (simp_all add: transport_simps)
  have tm: "timing [Sleep 2, Print (Current_status ''processing'' 2), Call_async_reload ?p,
                   Sleep 2, Print (Current_status ''processing'' 2), Call_async_reload ?p]
            = [Sleep 2, Call_async_reload ?p, Sleep 2, Call_async_reload ?p]"
    by (simp add: timing_def)
  note t = one_wait_before_each_reload
    [where c = example_client and n = 0 and lib = scripted and p = ?p
       and w = "[''processing'', ''completed'']" and ?p1.0 = ?p and ?w1.0 = "[''completed'']"
       and ?p2.0 = ?q and ?w2.0 = "[]" and t = scripted_transport and j = ?p and s = ?s
       and m = "''wavespeed-ai/flux-dev''" and i = "[]"
       and ?r0.0 = "\<lparr>job_id = ''job-1'', initial = Processing, links = ?l\<rparr>"
       and ?x1.0 = "[Processing, Completed [''https://img/1.png'']]"
       and ?r1.0 = "\<lparr>state = Processing, status_links = ?l\<rparr>"
       and ?x2.0 = "[Completed [''https://img/1.png'']]"
       and ?r2.0 = "\<lparr>state = Completed [''https://img/1.png''], status_links = ?l\<rparr>"
       and ?x3.0 = "[]" and os = "[''https://img/1.png'']"]
  from t h k have
    pl: "polling_loop (Suc (Suc 0)) scripted example_client ?p [''processing'', ''completed''] =
      (Return ?q, [],
       [Sleep (poll_interval example_client), Print (Current_status ''processing'' (poll_interval example_client)),
        Call_async_reload ?p,
        Sleep (poll_interval example_client), Print (Current_status ''processing'' (poll_interval example_client)),
        Call_async_reload ?p])"
    and sr: "spec_run (Suc (Suc 0)) scripted_transport example_client ''wavespeed-ai/flux-dev'' [] ?s =
      (Return \<lparr>id' = ''job-1'', status = ''completed'', outputs = [''https://img/1.png''], error = None,
               urls = ?l\<rparr>,
       ?s\<lparr>remote := [],
         wire_log := wire_log ?s @
           [Create_request ''wavespeed-ai/flux-dev'' [],
            Wait (poll_interval example_client), Status_request ''job-1'',
            Wait (poll_interval example_client), Status_request ''job-1'']\<rparr>)"
    by simp_all
  from pl sr h k show ?thesis
    by (simp add: example_client_def example_session_def)
qed

text \<open>
  C4. If the job that the create call returns is already \<open>'completed'\<close>, the polling loop
  returns that very job with no event; the entry function \<open>create_and_poll_image\<close> waits and
  reloads not once and prints the outputs of that job; and \<open>run\<close> of the specified client
  returns the job with the outputs of the creation response after the create request alone:
  no status request, no wait.
\<close>

theorem completed_at_creation_needs_no_reload:
  "(status p = ''completed'' \<longrightarrow> polling_loop n lib c p w = (Return p, w, []))
 \<and> (input_dict args = Inr inp
      \<and> async_create lib c ''wavespeed-ai/flux-dev'' inp w0 = (Return p, w)
      \<and> status p = ''completed'' \<longrightarrow>
    timing (events (create_and_poll_image n lib c args w0)) = [])
 \<and> (getattr args ''prompt'' = Inr prompt \<and> input_dict args = Inr inp
      \<and> async_create lib c ''wavespeed-ai/flux-dev'' inp w0 = (Return p, w)
      \<and> status p = ''completed'' \<and> getattr args ''poll'' = Inr poll \<and> truthy poll \<longrightarrow>
    create_and_poll_image_body n lib c args w0 =
      (Return (), w,
       [Print (Creating_job prompt), Call_async_create ''wavespeed-ai/flux-dev'' inp,
        Print (Job_created (id' p)), Print (Status_URL (get (urls p))),
        Print (Initial_status ''completed''), Print Polling_for_status_updates,
        Print (Final_status ''completed''), Print Image_generation_successful] @ print_outputs p))
 \<and> (truthy (api_key c) \<and> create_job t m i (remote s) = (Some r0, x1)
      \<and> initial r0 = Completed os \<longrightarrow>
    spec_run n t c m i s =
      (Return \<lparr>id' = job_id r0, status = ''completed'', outputs = os, error = None,
               urls = links r0\<rparr>,
       s\<lparr>remote := x1, wire_log := wire_log s @ [Create_request m i]\<rparr>))"
proof (intro conjI impI)
  assume "status p = ''completed''"
  then have "terminal (status p)" by (simp add: terminal_def)
  then show "polling_loop n lib c p w = (Return p, w, [])" by (rule polling_loop_terminal)
next
  assume "input_dict args = Inr inp
      \<and> async_create lib c ''wavespeed-ai/flux-dev'' inp w0 = (Return p, w)
      \<and> status p = ''completed''"
  then have a: "input_dict args = Inr inp"
    "async_create lib c ''wavespeed-ai/flux-dev'' inp w0 = (Return p, w)"
    "status p = ''completed''" by simp_all
  from script_no_timing_when_completed_at_creation [OF a]
  show "timing (events (create_and_poll_image n lib c args w0)) = []" .
next
  assume "getattr args ''prompt'' = Inr prompt \<and> input_dict args = Inr inp
      \<and> async_create lib c ''wavespeed-ai/flux-dev'' inp w0 = (Return p, w)
      \<and> status p = ''completed'' \<and> getattr args ''poll'' = Inr poll \<and> truthy poll"
  then have a: "getattr args ''prompt'' = Inr prompt" "input_dict args = Inr inp"
    "async_create lib c ''wavespeed-ai/flux-dev'' inp w0 = (Return p, w)"
    "status p = ''completed''" "getattr args ''poll'' = Inr poll" "truthy poll" by simp_all
  from body_when_completed_at_creation [OF a]
  show "create_and_poll_image_body n lib c args w0 =
      (Return (), w,
       [Print (Creating_job prompt), Call_async_create ''wavespeed-ai/flux-dev'' inp,
        Print (Job_created (id' p)), Print (Status_URL (get (urls p))),
        Print (Initial_status ''completed''), Print Polling_for_status_updates,
        Print (Final_status ''completed''), Print Image_generation_successful] @ print_outputs p)" .
next
  assume "truthy (api_key c) \<and> create_job t m i (remote s) = (Some r0, x1)
      \<and> initial r0 = Completed os"
  then have a: "truthy (api_key c)" "create_job t m i (remote s) = (Some r0, x1)"
    "initial r0 = Completed os" by simp_all
  from spec_run_completed_at_creation [OF a]
  show "spec_run n t c m i s =
      (Return \<lparr>id' = job_id r0, status = ''completed'', outputs = os, error = None,
               urls = links r0\<rparr>,
       s\<lparr>remote := x1, wire_log := wire_log s @ [Create_request m i]\<rparr>)" .
qed

theorem completed_at_creation_needs_no_reload_witness:
  "status (scripted_prediction ''completed'') = ''completed''
 \<and> polling_loop 0 scripted example_client (scripted_prediction ''completed'') [''error'']
     = (Return (scripted_prediction ''completed''), [''error''], [])
 \<and> input_dict example_args = Inr example_input
 \<and> async_create scripted example_client ''wavespeed-ai/flux-dev'' example_input [''completed'', ''error'']
     = (Return (scripted_prediction ''completed''), [''error''])
 \<and> timing (events (create_and_poll_image 0 scripted example_client example_args [''completed'', ''error''])) = []
 \<and> create_and_poll_image_body 0 scripted example_client example_args [''completed'', ''error'']
     = (Return (), [''error''],
        [Print (Creating_job (PStr ''a cat'')), Call_async_create ''wavespeed-ai/flux-dev'' example_input,
         Print (Job_created ''job-1''), Print (Status_URL ''https://api/predictions/job-1''),
         Print (Initial_status ''completed''), Print Polling_for_status_updates,
         Print (Final_status ''completed''), Print Image_generation_successful,
         Print Generated_image_URLs, Print (Image 1 ''https://img/1.png'')])
 \<and> spec_run 0 scripted_transport example_client ''wavespeed-ai/flux-dev'' example_input
       (example_session [Completed [''https://img/1.png''], Failed ''late''])
     = (Return \<lparr>id' = ''job-1'', status = ''completed'', outputs = [''https://img/1.png''],
               error = None, urls = \<lparr>get = ''https://api/job-1''\<rparr>\<rparr>,
        \<lparr>remote = [Failed ''late''], transport_open = True,
          wire_log = [Create_request ''wavespeed-ai/flux-dev'' example_input]\<rparr>)"
proof -
  let ?q = "scripted_prediction ''completed''"
  let ?s = "example_session [Completed [''https://img/1.png''], Failed ''late'']"
  let ?l = "\<lparr>get = ''https://api/job-1''\<rparr>"
  have h: "status ?q = ''completed''"
    "input_dict example_args = Inr example_input"
    "async_create scripted example_client ''wavespeed-ai/flux-dev'' example_input [''completed'', ''error'']
       = (Return ?q, [''error''])"
    "getattr example_args ''prompt'' = Inr (PStr ''a cat'')"
    "getattr example_args ''poll'' = Inr (PBool True)" "truthy (PBool True)"
    by (simp_all add: scripted_simps input_dict_def getattr_def example_args_def example_input_def)
  have k: "truthy (api_key example_client)"
    "create_job scripted_transport ''wavespeed-ai/flux-dev'' example_input (remote ?s)
       = (Some \<lparr>job_id = ''job-1'', initial = Completed [''https://img/1.png''], links = ?l\<rparr>,
          [Failed ''late''])"
    by (simp_all add: transport_simps)
  have po: "print_outputs ?q = [Print Generated_image_URLs, Print (Image 1 ''https://img/1.png'')]"
    by (simp add: print_outputs_def scripted_prediction_def enumerate_eq_zip)
  note t = completed_at_creation_needs_no_reload
    [where p = ?q and n = 0 and lib = scripted and c = example_client and w = "[''error'']"
       and args = example_args and inp = example_input and ?w0.0 = "[''completed'', ''error'']"
       and prompt = "PStr ''a cat''" and poll = "PBool True"
       and t = scripted_transport and m = "''wavespeed-ai/flux-dev''" and i = example_input
       and s = ?s and ?r0.0 = "\<lparr>job_id = ''job-1'', initial = Completed [''https://img/1.png''], links = ?l\<rparr>"
       and ?x1.0 = "[Failed ''late'']" and os = "[''https://img/1.png'']"]
  from t h k po show ?thesis
    by (simp add: scripted_prediction_def example_session_def)
qed

text \<open>
  C5. If \<open>reload\<close> (or \<open>async_reload\<close>) of the specified client fails, it fails with
  \<open>RequestError\<close> and the handle after the call is the handle before it: id, status, outputs,
  error and urls are unchanged. A failing status check is such a failure.
\<close>

theorem reload_failure_keeps_handle:
  "(\<forall>e. fst (spec_reload t p s) = Raise e \<longrightarrow>
      fst (snd (spec_reload t p s)) = p \<and> e = Exception ''RequestError'')
 \<and> (fst (status_check t (id' p) (remote s)) = None \<longrightarrow>
      fst (spec_reload t p s) = Raise (Exception ''RequestError'')
    \<and> fst (snd (spec_reload t p s)) = p)
 \<and> (\<forall>e. fst (spec_async_reload t p s) = Raise e \<longrightarrow>
      fst (snd (spec_reload t p s)) = p \<and> e = Exception ''RequestError'')"
proof (intro conjI; (intro allI impI)?)
  fix e assume a: "fst (spec_reload t p s) = Raise e"
  obtain r p1 s1 where rl: "spec_reload t p s = (r, p1, s1)" by (cases "spec_reload t p s")
  from a rl have "r = Raise e" by simp
  with rl spec_reload_failure [of t p s e p1 s1]
  show "fst (snd (spec_reload t p s)) = p \<and> e = Exception ''RequestError''" by simp
next
  assume "fst (status_check t (id' p) (remote s)) = None"
  then show "fst (spec_reload t p s) = Raise (Exception ''RequestError'')
    \<and> fst (snd (spec_reload t p s)) = p"
    by (cases "status_check t (id' p) (remote s)") (simp add: spec_reload_def)
next
  fix e assume a: "fst (spec_async_reload t p s) = Raise e"
  obtain r p1 s1 where rl: "spec_reload t p s = (r, p1, s1)" by (cases "spec_reload t p s")
  from a rl have "r = Raise e" by (cases r) (simp_all add: spec_async_reload_def)
  with rl spec_reload_failure [of t p s e p1 s1]
  show "fst (snd (spec_reload t p s)) = p \<and> e = Exception ''RequestError''" by simp
qed

theorem reload_failure_keeps_handle_witness:
  "fst (status_check scripted_transport (id' completed_job) (remote (example_session []))) = None
 \<and> fst (spec_reload scripted_transport completed_job (example_session []))
     = Raise (Exception ''RequestError'')
 \<and> fst (spec_async_reload scripted_transport completed_job (example_session []))
     = Raise (Exception ''RequestError'')
 \<and> fst (snd (spec_reload scripted_transport completed_job (example_session []))) = completed_job
 \<and> id' (fst (snd (spec_reload scripted_transport completed_job (example_session [])))) = ''job-1''
 \<and> status (fst (snd (spec_reload scripted_transport completed_job (example_session [])))) = ''completed''
 \<and> outputs (fst (snd (spec_reload scripted_transport completed_job (example_session []))))
     = [''https://img/1.png'']
 \<and> error (fst (snd (spec_reload scripted_transport completed_job (example_session [])))) = None
 \<and> urls (fst (snd (spec_reload scripted_transport completed_job (example_session []))))
     = \<lparr>get = ''https://api/job-1''\<rparr>"
proof -
  have h: "fst (status_check scripted_transport (id' completed_job) (remote (example_session []))) = None"
    by (simp add: transport_simps)
  have a: "fst (spec_async_reload scripted_transport completed_job (example_session []))
     = Raise (Exception ''RequestError'')"
    by (simp add: spec_async_reload_def spec_reload_def transport_simps)
  note t = reload_failure_keeps_handle [of scripted_transport completed_job "example_session []"]
  from t [THEN conjunct2, THEN conjunct1, rule_format, OF h]
  have r: "fst (spec_reload scripted_transport completed_job (example_session []))
     = Raise (Exception ''RequestError'')"
    and k: "fst (snd (spec_reload scripted_transport completed_job (example_session []))) = completed_job"
    by (rule conjunct1, rule conjunct2)
  have f: "id' completed_job = ''job-1''" "status completed_job = ''completed''"
    "outputs completed_job = [''https://img/1.png'']" "error completed_job = None"
    "urls completed_job = \<lparr>get = ''https://api/job-1''\<rparr>"
    by (simp_all add: completed_job_def)
  show ?thesis
    unfolding k
    by (intro conjI) (rule h r a refl f)+
qed

text \<open>
  C6. When the environment has no \<open>WAVESPEED_API_KEY\<close> and the command line carries no
  \<open>--api-key\<close> option, each of the three scripts ends in \<open>SystemExit\<close> without a single call
  into the client library. Whenever \<open>argparse\<close> accepts the command line, the script prints
  that the API key is required and exits with status 1, leaving the world as it was;
  otherwise \<open>argparse\<close> itself has ended the process even earlier.
\<close>

theorem missing_api_key_exits_before_any_call:
  assumes "environ ''WAVESPEED_API_KEY'' = None"
  shows
  "((\<forall>ts arg. match_args py (parser_generate_image environ) argv = Some ts \<longrightarrow>
        Optional ''--api-key'' arg \<notin> set ts) \<longrightarrow>
      (\<exists>code. fst (main_generate_image py lib argv environ w) = Raise (SystemExit code))
    \<and> filter is_library_call (events (main_generate_image py lib argv environ w)) = []
    \<and> (\<forall>args. parse_args py (parser_generate_image environ) argv = Inr args \<longrightarrow>
         main_generate_image py lib argv environ w
           = (Raise (SystemExit 1), w, [Print API_key_is_required])))
 \<and> ((\<forall>ts arg. match_args py (parser_async_generate_image environ) argv = Some ts \<longrightarrow>
        Optional ''--api-key'' arg \<notin> set ts) \<longrightarrow>
      (\<exists>code. fst (main_async_generate_image py lib argv environ w) = Raise (SystemExit code))
    \<and> filter is_library_call (events (main_async_generate_image py lib argv environ w)) = []
    \<and> (\<forall>args. parse_args py (parser_async_generate_image environ) argv = Inr args \<longrightarrow>
         main_async_generate_image py lib argv environ w
           = (Raise (SystemExit 1), w, [Print API_key_is_required])))
 \<and> ((\<forall>ts arg. match_args py (parser_async_create_generate_image environ) argv = Some ts \<longrightarrow>
        Optional ''--api-key'' arg \<notin> set ts) \<longrightarrow>
      (\<exists>code. fst (main_async_create_generate_image n py lib argv environ w) = Raise (SystemExit code))
    \<and> filter is_library_call (events (main_async_create_generate_image n py lib argv environ w)) = []
    \<and> (\<forall>args. parse_args py (parser_async_create_generate_image environ) argv = Inr args \<longrightarrow>
         main_async_create_generate_image n py lib argv environ w
           = (Raise (SystemExit 1), w, [Print API_key_is_required])))"
proof (intro conjI; rule impI)
  assume "\<forall>ts arg. match_args py (parser_generate_image environ) argv = Some ts \<longrightarrow>
        Optional ''--api-key'' arg \<notin> set ts"
  with assms show
     "(\<exists>code. fst (main_generate_image py lib argv environ w) = Raise (SystemExit code))
    \<and> filter is_library_call (events (main_generate_image py lib argv environ w)) = []
    \<and> (\<forall>args. parse_args py (parser_generate_image environ) argv = Inr args \<longrightarrow>
         main_generate_image py lib argv environ w
           = (Raise (SystemExit 1), w, [Print API_key_is_required]))"
    by (rule no_key_generate_image)
next
  assume "\<forall>ts arg. match_args py (parser_async_generate_image environ) argv = Some ts \<longrightarrow>
        Optional ''--api-key'' arg \<notin> set ts"
  with assms show
     "(\<exists>code. fst (main_async_generate_image py lib argv environ w) = Raise (SystemExit code))
    \<and> filter is_library_call (events (main_async_generate_image py lib argv environ w)) = []
    \<and> (\<forall>args. parse_args py (parser_async_generate_image environ) argv = Inr args \<longrightarrow>
         main_async_generate_image py lib argv environ w
           = (Raise (SystemExit 1), w, [Print API_key_is_required]))"
    by (rule no_key_async_generate_image)
next
  assume "\<forall>ts arg. match_args py (parser_async_create_generate_image environ) argv = Some ts \<longrightarrow>
        Optional ''--api-key'' arg \<notin> set ts"
  with assms show
     "(\<exists>code. fst (main_async_create_generate_image n py lib argv environ w) = Raise (SystemExit code))
    \<and> filter is_library_call (events (main_async_create_generate_image n py lib argv environ w)) = []
    \<and> (\<forall>args. parse_args py (parser_async_create_generate_image environ) argv = Inr args \<longrightarrow>
         main_async_create_generate_image n py lib argv environ w
           = (Raise (SystemExit 1), w, [Print API_key_is_required]))"
    by (rule no_key_async_create_generate_image)
qed

theorem missing_api_key_exits_before_any_call_witness:
  "(Map.empty :: string \<rightharpoonup> string) ''WAVESPEED_API_KEY'' = None
 \<and> match_args small_python (parser_generate_image Map.empty) keyless_argv
     = Some [Optional ''--prompt'' (Some ''a cat''), Optional ''--steps'' (Some ''4'')]
 \<and> match_args small_python (parser_async_generate_image Map.empty) keyless_argv
     = Some [Optional ''--prompt'' (Some ''a cat''), Optional ''--steps'' (Some ''4'')]
 \<and> match_args small_python (parser_async_create_generate_image Map.empty) keyless_argv
     = Some [Optional ''--prompt'' (Some ''a cat''), Optional ''--steps'' (Some ''4'')]
 \<and> main_generate_image small_python scripted keyless_argv Map.empty [''completed'']
     = (Raise (SystemExit 1), [''completed''], [Print API_key_is_required])
 \<and> main_async_generate_image small_python scripted keyless_argv Map.empty [''completed'']
     = (Raise (SystemExit 1), [''completed''], [Print API_key_is_required])
 \<and> main_async_create_generate_image 3 small_python scripted keyless_argv Map.empty [''completed'']
     = (Raise (SystemExit 1), [''completed''], [Print API_key_is_required])"
proof -
  have env: "(Map.empty :: string \<rightharpoonup> string) ''WAVESPEED_API_KEY'' = None" by simp
  have m: "match_args small_python (parser_generate_image Map.empty) keyless_argv
     = Some [Optional ''--prompt'' (Some ''a cat''), Optional ''--steps'' (Some ''4'')]"
    "match_args small_python (parser_async_generate_image Map.empty) keyless_argv
     = Some [Optional ''--prompt'' (Some ''a cat''), Optional ''--steps'' (Some ''4'')]"
    "match_args small_python (parser_async_create_generate_image Map.empty) keyless_argv
     = Some [Optional ''--prompt'' (Some ''a cat''), Optional ''--steps'' (Some ''4'')]"
    by (simp_all add: parser_simps keyless_argv_def)
  obtain a1 where p1: "parse_args small_python (parser_generate_image Map.empty) keyless_argv = Inr a1"
    by (simp add: parser_simps keyless_argv_def)
  obtain a2 where p2: "parse_args small_python (parser_async_generate_image Map.empty) keyless_argv = Inr a2"
    by (simp add: parser_simps keyless_argv_def)
  obtain a3 where p3: "parse_args small_python (parser_async_create_generate_image Map.empty) keyless_argv = Inr a3"
    by (simp add: parser_simps keyless_argv_def)
  note t = missing_api_key_exits_before_any_call
    [where environ = "Map.empty" and py = small_python and argv = keyless_argv and lib = scripted
       and w = "[''completed'']" and n = 3]
  from t env m p1 p2 p3 show ?thesis by simp
qed

text \<open>
  C7. \<open>close\<close> of the specified client returns without raising; called a second time it
  returns again, leaves the session as the first call left it, and sends nothing: the wire
  log is the one from before the first call.
\<close>

theorem close_twice:
  "fst (spec_close c s) = Return ()
 \<and> spec_close c (snd (spec_close c s)) = (Return (), snd (spec_close c s))
 \<and> wire_log (snd (spec_close c (snd (spec_close c s)))) = wire_log s
 \<and> filter is_request (wire_log (snd (spec_close c (snd (spec_close c s)))))
     = filter is_request (wire_log s)
 \<and> remote (snd (spec_close c (snd (spec_close c s)))) = remote s
 \<and> \<not> transport_open (snd (spec_close c (snd (spec_close c s))))"
  by (simp add: spec_close_def)

text \<open>
  C8. For every command line, whatever the matching of \<open>argparse\<close> makes of it, the
  namespace that \<open>parse_args\<close> returns has \<open>safety = True\<close> in the three scripts and
  \<open>poll = True\<close> in \<open>async_create_generate_image.py\<close>, and every job request a script sends
  has \<open>enable_safety_checker = True\<close> in its input: the flags are \<open>store_true\<close> with default
  \<open>True\<close>, so no command line turns them off.
\<close>

theorem safety_and_poll_always_true:
  "(\<forall>args. parse_args py (parser_generate_image environ) argv = Inr args \<longrightarrow>
      args ''safety'' = Some (PBool True))
 \<and> (\<forall>m i. Call_run m i \<in> set (events (main_generate_image py lib argv environ w)) \<longrightarrow>
      map_of i ''enable_safety_checker'' = Some (PBool True))
 \<and> (\<forall>args. parse_args py (parser_async_generate_image environ) argv = Inr args \<longrightarrow>
      args ''safety'' = Some (PBool True))
 \<and> (\<forall>m i. Call_async_run m i \<in> set (events (main_async_generate_image py lib argv environ w)) \<longrightarrow>
      map_of i ''enable_safety_checker'' = Some (PBool True))
 \<and> (\<forall>args. parse_args py (parser_async_create_generate_image environ) argv = Inr args \<longrightarrow>
      args ''safety'' = Some (PBool True) \<and> args ''poll'' = Some (PBool True))
 \<and> (\<forall>m i. Call_async_create m i
        \<in> set (events (main_async_create_generate_image n py lib argv environ w)) \<longrightarrow>
      map_of i ''enable_safety_checker'' = Some (PBool True))"
proof (intro conjI allI impI)
  fix args assume "parse_args py (parser_generate_image environ) argv = Inr args"
  then show "args ''safety'' = Some (PBool True)" by (rule safety_generate_image)
next
  fix m i assume "Call_run m i \<in> set (events (main_generate_image py lib argv environ w))"
  from main_generate_image_request [OF this] obtain args where
    "parse_args py (parser_generate_image environ) argv = Inr args" "input_dict args = Inr i" by blast
  with safety_generate_image [of py environ argv args]
  show "map_of i ''enable_safety_checker'' = Some (PBool True)"
    by (simp add: input_dict_safety)
next
  fix args assume "parse_args py (parser_async_generate_image environ) argv = Inr args"
  then show "args ''safety'' = Some (PBool True)" by (rule safety_async_generate_image)
next
  fix m i assume "Call_async_run m i \<in> set (events (main_async_generate_image py lib argv environ w))"
  from main_async_generate_image_request [OF this] obtain args where
    "parse_args py (parser_async_generate_image environ) argv = Inr args" "input_dict args = Inr i" by blast
  with safety_async_generate_image [of py environ argv args]
  show "map_of i ''enable_safety_checker'' = Some (PBool True)"
    by (simp add: input_dict_safety)
next
  fix args assume "parse_args py (parser_async_create_generate_image environ) argv = Inr args"
  then show "args ''safety'' = Some (PBool True)" by (rule safety_async_create_generate_image)
next
  fix args assume "parse_args py (parser_async_create_generate_image environ) argv = Inr args"
  then show "args ''poll'' = Some (PBool True)" by (rule poll_async_create_generate_image)
next
  fix m i assume "Call_async_create m i
        \<in> set (events (main_async_create_generate_image n py lib argv environ w))"
  from main_async_create_generate_image_request [OF this] obtain args where
    "parse_args py (parser_async_create_generate_image environ) argv = Inr args"
    "input_dict args = Inr i" by blast
  with safety_async_create_generate_image [of py environ argv args]
  show "map_of i ''enable_safety_checker'' = Some (PBool True)"
    by (simp add: input_dict_safety)
qed

theorem safety_and_poll_always_true_witness:
  "(case parse_args small_python (parser_generate_image Map.empty) example_argv of
      Inl code \<Rightarrow> False | Inr args \<Rightarrow> args ''safety'' = Some (PBool True))
 \<and> Call_run ''wavespeed-ai/flux-dev'' example_input
      \<in> set (events (main_generate_image small_python scripted example_argv Map.empty [''completed'']))
 \<and> (case parse_args small_python (parser_async_generate_image Map.empty) example_argv of
      Inl code \<Rightarrow> False | Inr args \<Rightarrow> args ''safety'' = Some (PBool True))
 \<and> Call_async_run ''wavespeed-ai/flux-dev'' example_input
      \<in> set (events (main_async_generate_image small_python scripted example_argv Map.empty [''completed'']))
 \<and> (case parse_args small_python (parser_async_create_generate_image Map.empty) example_argv of
      Inl code \<Rightarrow> False
    | Inr args \<Rightarrow> args ''safety'' = Some (PBool True) \<and> args ''poll'' = Some (PBool True))
 \<and> Call_async_create ''wavespeed-ai/flux-dev'' example_input
      \<in> set (events (main_async_create_generate_image 0 small_python scripted example_argv Map.empty
                       [''completed'']))
 \<and> map_of example_input ''enable_safety_checker'' = Some (PBool True)"
proof -
  obtain a1 where p1: "parse_args small_python (parser_generate_image Map.empty) example_argv = Inr a1"
    by (simp add: parser_simps example_argv_def)
  obtain a2 where p2: "parse_args small_python (parser_async_generate_image Map.empty) example_argv = Inr a2"
    by (simp add: parser_simps example_argv_def)
  obtain a3 where p3: "parse_args small_python (parser_async_create_generate_image Map.empty) example_argv = Inr a3"
    by (simp add: parser_simps example_argv_def)
  have e1: "Call_run ''wavespeed-ai/flux-dev'' example_input
      \<in> set (events (main_generate_image small_python scripted example_argv Map.empty [''completed'']))"
    by (simp add: main_generate_image_def parser_simps example_argv_def script_simps scripted_simps
        example_input_def)
  have e2: "Call_async_run ''wavespeed-ai/flux-dev'' example_input
      \<in> set (events (main_async_generate_image small_python scripted example_argv Map.empty [''completed'']))"
    by (simp add: main_async_generate_image_def parser_simps example_argv_def script_simps scripted_simps
        example_input_def)
  have e3: "Call_async_create ''wavespeed-ai/flux-dev'' example_input
      \<in> set (events (main_async_create_generate_image 0 small_python scripted example_argv Map.empty
                       [''completed'']))"
    by (simp add: main_async_create_generate_image_def parser_simps example_argv_def script_simps
        scripted_simps example_input_def)
  from safety_and_poll_always_true
         [of small_python Map.empty example_argv scripted "[''completed'']" 0] p1 p2 p3 e1 e2 e3
  show ?thesis by simp
qed

text \<open>
  C9. The guard of the polling loop is false exactly on the strings \<open>'completed'\<close> and
  \<open>'error'\<close>. If every reload brings any other status (\<open>'failed'\<close>, say), then a loop that
  starts on such a status has not returned after \<open>n\<close> iterations, for every \<open>n\<close>, and has
  by then slept \<open>n\<close> times and reloaded \<open>n\<close> times: it polls without bound.
\<close>

theorem unknown_status_polls_forever:
  assumes "\<forall>q v. \<exists>q' v'. async_reload lib q v = (Return q', v') \<and> \<not> terminal (status q')"
    and "\<not> terminal (status p)"
  shows "fst (polling_loop n lib c p w) = NoReturn
       \<and> length (filter is_sleep (events (polling_loop n lib c p w))) = n
       \<and> length (filter is_reload (events (polling_loop n lib c p w))) = n
       \<and> (\<forall>s. terminal s \<longleftrightarrow> s = ''completed'' \<or> s = ''error'')"
proof -
  from assms(1) have "\<And>q v. \<exists>q' v'. async_reload lib q v = (Return q', v') \<and> \<not> terminal (status q')"
    by blast
  from polling_loop_never_ends [OF this assms(2)] show ?thesis
    by (simp add: terminal_def)
qed

theorem unknown_status_polls_forever_witness:
  "\<not> terminal (status (scripted_prediction ''failed''))
 \<and> async_reload stalled (scripted_prediction ''failed'') () = (Return (scripted_prediction ''failed''), ())
 \<and> fst (polling_loop 7 stalled example_client (scripted_prediction ''failed'') ()) = NoReturn
 \<and> length (filter is_sleep (events (polling_loop 7 stalled example_client (scripted_prediction ''failed'') ()))) = 7
 \<and> length (filter is_reload (events (polling_loop 7 stalled example_client (scripted_prediction ''failed'') ()))) = 7"
proof -
  have stay: "\<forall>q v. \<exists>q' v'. async_reload stalled q v = (Return q', v') \<and> \<not> terminal (status q')"
    by (simp add: stalled_def scripted_simps)
  have start: "\<not> terminal (status (scripted_prediction ''failed''))"
    by (simp add: scripted_simps)
  have "async_reload stalled (scripted_prediction ''failed'') () = (Return (scripted_prediction ''failed''), ())"
    by (simp add: stalled_def)
  with unknown_status_polls_forever [OF stay start, of 7 example_client "()"] start
  show ?thesis by simp
qed

text \<open>
  C10. In each entry function (\<open>generate_image\<close> of both scripts and
  \<open>create_and_poll_image\<close>), whenever the \<open>try\<close> body returns or raises, \<open>client.close()\<close> is
  called exactly once and it is the last event. When the body raises an \<open>Exception\<close>, the
  exception is logged, the error line is printed, then \<open>close\<close> is called, and (\<open>close\<close>
  returning) the function ends in \<open>SystemExit(1)\<close>. The call is carried out: the world the
  function leaves is the one \<open>close\<close> leaves from the world at the end of the body, the
  outcome is that of the handler when \<open>close\<close> returns, and what \<open>close\<close> raises (or its
  not returning) takes its place otherwise. Only a body that never returns leaves the
  function without \<open>close\<close>.
\<close>

theorem close_awaited_on_every_path:
  "(fst (generate_image_body lib c args w) \<noteq> NoReturn \<longrightarrow>
      closes_at_the_end (events (generate_image lib c args w)))
 \<and> (fst (generate_image_async_body lib c args w) \<noteq> NoReturn \<longrightarrow>
      closes_at_the_end (events (generate_image_async lib c args w)))
 \<and> (fst (create_and_poll_image_body n lib c args w) \<noteq> NoReturn \<longrightarrow>
      closes_at_the_end (events (create_and_poll_image n lib c args w)))
 \<and> (\<forall>e w1 evs. generate_image_body lib c args w = (Raise e, w1, evs) \<and> is_Exception e \<longrightarrow>
      events (generate_image lib c args w)
        = evs @ [Log_exception e, Print (Error_generating_image e), Call_close]
      \<and> (fst (close lib c w1) = Return () \<longrightarrow>
           fst (generate_image lib c args w) = Raise (SystemExit 1)))
 \<and> (\<forall>e w1 evs. generate_image_async_body lib c args w = (Raise e, w1, evs) \<and> is_Exception e \<longrightarrow>
      events (generate_image_async lib c args w)
        = evs @ [Log_exception e, Print (Error_generating_image e), Call_close]
      \<and> (fst (close lib c w1) = Return () \<longrightarrow>
           fst (generate_image_async lib c args w) = Raise (SystemExit 1)))
 \<and> (\<forall>e w1 evs. create_and_poll_image_body n lib c args w = (Raise e, w1, evs) \<and> is_Exception e \<longrightarrow>
      events (create_and_poll_image n lib c args w)
        = evs @ [Log_exception e, Print (Error_generating_image e), Call_close]
      \<and> (fst (close lib c w1) = Return () \<longrightarrow>
           fst (create_and_poll_image n lib c args w) = Raise (SystemExit 1)))
 \<and> (\<forall>r w1 evs. generate_image_body lib c args w = (r, w1, evs) \<and> r \<noteq> NoReturn \<longrightarrow>
      generate_image lib c args w =
        (case fst (close lib c w1) of
           Return u \<Rightarrow>
             (case r of
                Raise e \<Rightarrow> if is_Exception e then Raise (SystemExit 1) else Raise e
              | Return v \<Rightarrow> Return v
              | NoReturn \<Rightarrow> NoReturn)
         | Raise e' \<Rightarrow> Raise e'
         | NoReturn \<Rightarrow> NoReturn,
         snd (close lib c w1),
         evs @
         (case r of
            Raise e \<Rightarrow> if is_Exception e then [Log_exception e, Print (Error_generating_image e)] else []
          | Return v \<Rightarrow> []
          | NoReturn \<Rightarrow> []) @
         [Call_close]))
 \<and> (\<forall>r w1 evs. generate_image_async_body lib c args w = (r, w1, evs) \<and> r \<noteq> NoReturn \<longrightarrow>
      generate_image_async lib c args w =
        (case fst (close lib c w1) of
           Return u \<Rightarrow>
             (case r of
                Raise e \<Rightarrow> if is_Exception e then Raise (SystemExit 1) else Raise e
              | Return v \<Rightarrow> Return v
              | NoReturn \<Rightarrow> NoReturn)
         | Raise e' \<Rightarrow> Raise e'
         | NoReturn \<Rightarrow> NoReturn,
         snd (close lib c w1),
         evs @
         (case r of
            Raise e \<Rightarrow> if is_Exception e then [Log_exception e, Print (Error_generating_image e)] else []
          | Return v \<Rightarrow> []
          | NoReturn \<Rightarrow> []) @
         [Call_close]))
 \<and> (\<forall>r w1 evs. create_and_poll_image_body n lib c args w = (r, w1, evs) \<and> r \<noteq> NoReturn \<longrightarrow>
      create_and_poll_image n lib c args w =
        (case fst (close lib c w1) of
           Return u \<Rightarrow>
             (case r of
                Raise e \<Rightarrow> if is_Exception e then Raise (SystemExit 1) else Raise e
              | Return v \<Rightarrow> Return v
              | NoReturn \<Rightarrow> NoReturn)
         | Raise e' \<Rightarrow> Raise e'
         | NoReturn \<Rightarrow> NoReturn,
         snd (close lib c w1),
         evs @
         (case r of
            Raise e \<Rightarrow> if is_Exception e then [Log_exception e, Print (Error_generating_image e)] else []
          | Return v \<Rightarrow> []
          | NoReturn \<Rightarrow> []) @
         [Call_close]))
 \<and> (\<forall>w1 evs. generate_image_body lib c args w = (NoReturn, w1, evs) \<longrightarrow>
      generate_image lib c args w = (NoReturn, w1, evs))
 \<and> (\<forall>w1 evs. generate_image_async_body lib c args w = (NoReturn, w1, evs) \<longrightarrow>
      generate_image_async lib c args w = (NoReturn, w1, evs))
 \<and> (\<forall>w1 evs. create_and_poll_image_body n lib c args w = (NoReturn, w1, evs) \<longrightarrow>
      create_and_poll_image n lib c args w = (NoReturn, w1, evs))"
  unfolding generate_image_def generate_image_async_def create_and_poll_image_def
  by (intro conjI)
     (rule generate_image_closes [unfolded generate_image_def]
           generate_image_async_closes [unfolded generate_image_async_def]
           create_and_poll_image_closes [unfolded create_and_poll_image_def]
           handled_exception_then_close left_try_then_close never_left_try_no_close)+

theorem close_awaited_on_every_path_witness:
  "fst (generate_image_body scripted_closing example_client example_args [''completed'']) = Return ()
 \<and> close scripted_closing example_client [] = (Return (), [''closed''])
 \<and> fst (generate_image scripted_closing example_client example_args [''completed'']) = Return ()
 \<and> fst (snd (generate_image scripted_closing example_client example_args [''completed''])) = [''closed'']
 \<and> closes_at_the_end (events (generate_image scripted_closing example_client example_args [''completed'']))
 \<and> fst (generate_image_async_body scripted_closing example_client example_args [''completed'']) = Return ()
 \<and> fst (generate_image_async scripted_closing example_client example_args [''completed'']) = Return ()
 \<and> fst (snd (generate_image_async scripted_closing example_client example_args [''completed'']))
     = [''closed'']
 \<and> closes_at_the_end
      (events (generate_image_async scripted_closing example_client example_args [''completed'']))
 \<and> fst (create_and_poll_image_body (Suc 0) scripted_closing example_client example_args
           [''processing'', ''completed'']) = Return ()
 \<and> fst (create_and_poll_image (Suc 0) scripted_closing example_client example_args
           [''processing'', ''completed'']) = Return ()
 \<and> fst (snd (create_and_poll_image (Suc 0) scripted_closing example_client example_args
           [''processing'', ''completed''])) = [''closed'']
 \<and> closes_at_the_end (events (create_and_poll_image (Suc 0) scripted_closing example_client
           example_args [''processing'', ''completed'']))
 \<and> fst (create_and_poll_image_body (Suc 0) scripted_closing example_client example_args [''processing''])
     = Raise (Exception ''RequestError'')
 \<and> is_Exception (Exception ''RequestError'')
 \<and> fst (create_and_poll_image (Suc 0) scripted_closing example_client example_args [''processing''])
     = Raise (SystemExit 1)
 \<and> fst (snd (create_and_poll_image (Suc 0) scripted_closing example_client example_args [''processing'']))
     = [''closed'']
 \<and> last (events (create_and_poll_image (Suc 0) scripted_closing example_client example_args
           [''processing''])) = Call_close
 \<and> close scripted_close_fails example_client [] = (Raise (Exception ''CloseError''), [''closed''])
 \<and> fst (generate_image scripted_close_fails example_client example_args [''completed''])
     = Raise (Exception ''CloseError'')
 \<and> fst (create_and_poll_image_body 0 scripted_closing example_client example_args [''processing''])
     = NoReturn
 \<and> create_and_poll_image 0 scripted_closing example_client example_args [''processing'']
     = create_and_poll_image_body 0 scripted_closing example_client example_args [''processing'']"
proof -
  note ev = script_simps scripted_simps scripted_closing_def scripted_close_fails_def
  let ?g = "generate_image_body scripted_closing example_client example_args [''completed'']"
  let ?h = "generate_image_body scripted_close_fails example_client example_args [''completed'']"
  let ?k = "create_and_poll_image_body 0 scripted_closing example_client example_args [''processing'']"
  have g: "?g = (fst ?g, fst (snd ?g), events ?g)" by simp
  have g1: "fst ?g = Return ()" by (simp add: ev)
  have g2: "fst (snd ?g) = []" by (simp add: ev)
  have gn: "fst ?g \<noteq> NoReturn" by (simp only: g1) simp
  have h: "?h = (fst ?h, fst (snd ?h), events ?h)" by simp
  have h1: "fst ?h = Return ()" by (simp add: ev)
  have h2: "fst (snd ?h) = []" by (simp add: ev)
  have hn: "fst ?h \<noteq> NoReturn" by (simp only: h1) simp
  have k: "?k = (NoReturn, fst (snd ?k), events ?k)" by (simp add: ev)
  have c1: "close scripted_closing example_client [] = (Return (), [''closed''])"
    by (simp add: ev)
  have c2: "close scripted_close_fails example_client [] = (Raise (Exception ''CloseError''), [''closed''])"
    by (simp add: ev)
  note t = close_awaited_on_every_path
    [where lib = scripted_closing and c = example_client and args = example_args
       and w = "[''completed'']" and n = 0]
  note u = close_awaited_on_every_path
    [where lib = scripted_close_fails and c = example_client and args = example_args
       and w = "[''completed'']" and n = 0]
  note v = close_awaited_on_every_path
    [where lib = scripted_closing and c = example_client and args = example_args
       and w = "[''processing'']" and n = 0]
  from t [THEN conjunct1, rule_format, OF gn]
  have w5: "closes_at_the_end
      (events (generate_image scripted_closing example_client example_args [''completed'']))" .
  from t [THEN conjunct2, THEN conjunct2, THEN conjunct2, THEN conjunct2, THEN conjunct2,
          THEN conjunct2, THEN conjunct1, rule_format, OF conjI [OF g gn]]
  have "generate_image scripted_closing example_client example_args [''completed'']
     = (Return (), [''closed''], events ?g @ [Call_close])"
    by (simp add: g1 g2 c1)
  then have w3: "fst (generate_image scripted_closing example_client example_args [''completed'']) = Return ()"
    and w4: "fst (snd (generate_image scripted_closing example_client example_args [''completed'']))
       = [''closed'']"
    by simp_all
  from u [THEN conjunct2, THEN conjunct2, THEN conjunct2, THEN conjunct2, THEN conjunct2,
          THEN conjunct2, THEN conjunct1, rule_format, OF conjI [OF h hn]]
  have "generate_image scripted_close_fails example_client example_args [''completed'']
     = (Raise (Exception ''CloseError''), [''closed''], events ?h @ [Call_close])"
    by (simp add: h1 h2 c2)
  then have w20: "fst (generate_image scripted_close_fails example_client example_args [''completed''])
     = Raise (Exception ''CloseError'')"
    by simp
  from v [THEN conjunct2, THEN conjunct2, THEN conjunct2, THEN conjunct2, THEN conjunct2,
          THEN conjunct2, THEN conjunct2, THEN conjunct2, THEN conjunct2, THEN conjunct2,
          THEN conjunct2, rule_format, OF k]
  have w22: "create_and_poll_image 0 scripted_closing example_client example_args [''processing'']
     = create_and_poll_image_body 0 scripted_closing example_client example_args [''processing'']"
    using k by simp
  have w21: "fst ?k = NoReturn" by (simp add: ev)
  have rest:
    "fst (generate_image_async_body scripted_closing example_client example_args [''completed'']) = Return ()"
    "fst (generate_image_async scripted_closing example_client example_args [''completed'']) = Return ()"
    "fst (snd (generate_image_async scripted_closing example_client example_args [''completed'']))
       = [''closed'']"
    "closes_at_the_end
       (events (generate_image_async scripted_closing example_client example_args [''completed'']))"
    "fst (create_and_poll_image_body (Suc 0) scripted_closing example_client example_args
           [''processing'', ''completed'']) = Return ()"
    "fst (create_and_poll_image (Suc 0) scripted_closing example_client example_args
           [''processing'', ''completed'']) = Return ()"
    "fst (snd (create_and_poll_image (Suc 0) scripted_closing example_client example_args
           [''processing'', ''completed''])) = [''closed'']"
    "closes_at_the_end (events (create_and_poll_image (Suc 0) scripted_closing example_client
           example_args [''processing'', ''completed'']))"
    "fst (create_and_poll_image_body (Suc 0) scripted_closing example_client example_args [''processing''])
       = Raise (Exception ''RequestError'')"
    "is_Exception (Exception ''RequestError'')"
    "fst (create_and_poll_image (Suc 0) scripted_closing example_client example_args [''processing''])
       = Raise (SystemExit 1)"
    "fst (snd (create_and_poll_image (Suc 0) scripted_closing example_client example_args [''processing'']))
       = [''closed'']"
    "last (events (create_and_poll_image (Suc 0) scripted_closing example_client example_args
           [''processing''])) = Call_close"
    by (simp_all add: ev closes_at_the_end_def)
  show ?thesis
    by (intro conjI) (rule g1 c1 w3 w4 w5 rest c2 w20 w21 w22)+
qed

end
